theory Spec2Isabelle
  imports Complex_Main "HOL-Library.Word"
begin

unbundle bit_operations_syntax

section \<open>The floating-point scalar \<open>kompleks_type\<close>\<close>

text \<open>
  The program computes in \<open>long double\<close> (\<open>kompleks_type\<close>). The model keeps the
  special values of IEEE arithmetic, which the program relies on (the \<open>INF\<close> sentinel of
  the colour formulas, the logarithm of zero), and idealises the finite values: a finite
  result is the exact real result, so rounding, overflow of finite values and the sign of
  zero are not represented. No theorem of the control flow below depends on the value of a
  finite arithmetic result.
\<close>

datatype ldouble = Fin real | PInf | NInf | NaN

definition ld_sign :: "real \<Rightarrow> ldouble" where
  "ld_sign a = (if 0 \<le> a then PInf else NInf)"

fun ld_neg :: "ldouble \<Rightarrow> ldouble" where
  "ld_neg (Fin a) = Fin (- a)"
| "ld_neg PInf = NInf"
| "ld_neg NInf = PInf"
| "ld_neg NaN = NaN"

fun ld_add :: "ldouble \<Rightarrow> ldouble \<Rightarrow> ldouble" where
  "ld_add NaN _ = NaN"
| "ld_add _ NaN = NaN"
| "ld_add (Fin a) (Fin b) = Fin (a + b)"
| "ld_add PInf NInf = NaN"
| "ld_add NInf PInf = NaN"
| "ld_add PInf _ = PInf"
| "ld_add NInf _ = NInf"
| "ld_add (Fin a) b = b"

fun ld_mul :: "ldouble \<Rightarrow> ldouble \<Rightarrow> ldouble" where
  "ld_mul NaN _ = NaN"
| "ld_mul _ NaN = NaN"
| "ld_mul (Fin a) (Fin b) = Fin (a * b)"
| "ld_mul (Fin a) PInf = (if a = 0 then NaN else ld_sign a)"
| "ld_mul (Fin a) NInf = (if a = 0 then NaN else ld_sign (- a))"
| "ld_mul PInf (Fin b) = (if b = 0 then NaN else ld_sign b)"
| "ld_mul NInf (Fin b) = (if b = 0 then NaN else ld_sign (- b))"
| "ld_mul PInf PInf = PInf"
| "ld_mul NInf NInf = PInf"
| "ld_mul PInf NInf = NInf"
| "ld_mul NInf PInf = NInf"

fun ld_div :: "ldouble \<Rightarrow> ldouble \<Rightarrow> ldouble" where
  "ld_div NaN _ = NaN"
| "ld_div _ NaN = NaN"
| "ld_div (Fin a) (Fin b) =
     (if b = 0 then (if a = 0 then NaN else ld_sign a) else Fin (a / b))"
| "ld_div (Fin a) _ = Fin 0"
| "ld_div PInf (Fin b) = ld_sign b"
| "ld_div NInf (Fin b) = ld_sign (- b)"
| "ld_div _ _ = NaN"

fun ld_less :: "ldouble \<Rightarrow> ldouble \<Rightarrow> bool" where
  "ld_less NaN _ = False"
| "ld_less _ NaN = False"
| "ld_less (Fin a) (Fin b) = (a < b)"
| "ld_less NInf b = (b \<noteq> NInf)"
| "ld_less a PInf = (a \<noteq> PInf)"
| "ld_less _ _ = False"

text \<open>The comparison \<open>==\<close> of two scalars: a NaN is equal to nothing.\<close>

definition ld_eq :: "ldouble \<Rightarrow> ldouble \<Rightarrow> bool" where
  "ld_eq a b = (a \<noteq> NaN \<and> b \<noteq> NaN \<and> a = b)"

instantiation ldouble :: "{plus, minus, uminus, times, inverse, ord}"
begin

definition plus_ldouble :: "ldouble \<Rightarrow> ldouble \<Rightarrow> ldouble" where
  "plus_ldouble a b = ld_add a b"

definition uminus_ldouble :: "ldouble \<Rightarrow> ldouble" where
  "uminus_ldouble a = ld_neg a"

definition minus_ldouble :: "ldouble \<Rightarrow> ldouble \<Rightarrow> ldouble" where
  "minus_ldouble a b = ld_add a (ld_neg b)"

definition times_ldouble :: "ldouble \<Rightarrow> ldouble \<Rightarrow> ldouble" where
  "times_ldouble a b = ld_mul a b"

definition divide_ldouble :: "ldouble \<Rightarrow> ldouble \<Rightarrow> ldouble" where
  "divide_ldouble a b = ld_div a b"

definition inverse_ldouble :: "ldouble \<Rightarrow> ldouble" where
  "inverse_ldouble a = ld_div (Fin 1) a"

definition less_ldouble :: "ldouble \<Rightarrow> ldouble \<Rightarrow> bool" where
  "less_ldouble a b = ld_less a b"

definition less_eq_ldouble :: "ldouble \<Rightarrow> ldouble \<Rightarrow> bool" where
  "less_eq_ldouble a b = (ld_less a b \<or> ld_eq a b)"

instance ..

end

text \<open>The functions of \<open>cmath\<close>, with the special cases of Annex F of the C standard.\<close>

fun ld_abs :: "ldouble \<Rightarrow> ldouble" where
  "ld_abs (Fin a) = Fin \<bar>a\<bar>"
| "ld_abs NaN = NaN"
| "ld_abs _ = PInf"

fun ld_sqrt :: "ldouble \<Rightarrow> ldouble" where
  "ld_sqrt (Fin a) = (if a < 0 then NaN else Fin (sqrt a))"
| "ld_sqrt PInf = PInf"
| "ld_sqrt _ = NaN"

fun ld_log :: "ldouble \<Rightarrow> ldouble" where
  "ld_log (Fin a) = (if a < 0 then NaN else if a = 0 then NInf else Fin (ln a))"
| "ld_log PInf = PInf"
| "ld_log _ = NaN"

fun ld_exp :: "ldouble \<Rightarrow> ldouble" where
  "ld_exp (Fin a) = Fin (exp a)"
| "ld_exp PInf = PInf"
| "ld_exp NInf = Fin 0"
| "ld_exp NaN = NaN"

fun ld_sin :: "ldouble \<Rightarrow> ldouble" where
  "ld_sin (Fin a) = Fin (sin a)"
| "ld_sin _ = NaN"

fun ld_cos :: "ldouble \<Rightarrow> ldouble" where
  "ld_cos (Fin a) = Fin (cos a)"
| "ld_cos _ = NaN"

fun ld_sinh :: "ldouble \<Rightarrow> ldouble" where
  "ld_sinh (Fin a) = Fin ((exp a - exp (- a)) / 2)"
| "ld_sinh a = a"

fun ld_cosh :: "ldouble \<Rightarrow> ldouble" where
  "ld_cosh (Fin a) = Fin ((exp a + exp (- a)) / 2)"
| "ld_cosh NaN = NaN"
| "ld_cosh _ = PInf"

text \<open>\<open>std::round\<close>: to the nearest integer, halfway cases away from zero.\<close>

definition round_half_away :: "real \<Rightarrow> int" where
  "round_half_away a = (if 0 \<le> a then \<lfloor>a + 1 / 2\<rfloor> else - \<lfloor>- a + 1 / 2\<rfloor>)"

fun ld_round :: "ldouble \<Rightarrow> ldouble" where
  "ld_round (Fin a) = Fin (of_int (round_half_away a))"
| "ld_round a = a"

definition is_odd_integer :: "real \<Rightarrow> bool" where
  "is_odd_integer b = (b = of_int \<lfloor>b\<rfloor> \<and> odd \<lfloor>b\<rfloor>)"

fun ld_pow :: "ldouble \<Rightarrow> ldouble \<Rightarrow> ldouble" where
  "ld_pow x (Fin b) =
     (if b = 0 then Fin 1
      else case x of
        NaN \<Rightarrow> NaN
      | PInf \<Rightarrow> (if b < 0 then Fin 0 else PInf)
      | NInf \<Rightarrow> (if b < 0 then Fin 0 else if is_odd_integer b then NInf else PInf)
      | Fin a \<Rightarrow>
          (if a = 0 then (if b < 0 then PInf else Fin 0)
           else if 0 < a then Fin (a powr b)
           else if b = of_int \<lfloor>b\<rfloor>
             then Fin ((if even \<lfloor>b\<rfloor> then 1 else - 1) * ((- a) powr b))
           else NaN))"
| "ld_pow x NaN = (if x = Fin 1 then Fin 1 else NaN)"
| "ld_pow x PInf =
     (case x of
        NaN \<Rightarrow> NaN
      | Fin a \<Rightarrow> (if \<bar>a\<bar> < 1 then Fin 0 else if 1 < \<bar>a\<bar> then PInf else Fin 1)
      | _ \<Rightarrow> PInf)"
| "ld_pow x NInf =
     (case x of
        NaN \<Rightarrow> NaN
      | Fin a \<Rightarrow> (if \<bar>a\<bar> < 1 then PInf else if 1 < \<bar>a\<bar> then Fin 0 else Fin 1)
      | _ \<Rightarrow> Fin 0)"

fun ld_atan2 :: "ldouble \<Rightarrow> ldouble \<Rightarrow> ldouble" where
  "ld_atan2 NaN _ = NaN"
| "ld_atan2 _ NaN = NaN"
| "ld_atan2 (Fin y) (Fin x) = Fin (Arg (Complex x y))"
| "ld_atan2 (Fin y) PInf = Fin 0"
| "ld_atan2 (Fin y) NInf = (if 0 \<le> y then Fin pi else Fin (- pi))"
| "ld_atan2 PInf (Fin x) = Fin (pi / 2)"
| "ld_atan2 NInf (Fin x) = Fin (- pi / 2)"
| "ld_atan2 PInf PInf = Fin (pi / 4)"
| "ld_atan2 NInf PInf = Fin (- pi / 4)"
| "ld_atan2 PInf NInf = Fin (3 * pi / 4)"
| "ld_atan2 NInf NInf = Fin (- 3 * pi / 4)"

text \<open>The conversion of an unsigned integer to \<open>long double\<close>.\<close>

definition ld_of_nat :: "nat \<Rightarrow> ldouble" where
  "ld_of_nat k = Fin (of_nat k)"

definition ld_of_int :: "int \<Rightarrow> ldouble" where
  "ld_of_int k = Fin (of_int k)"

section \<open>The complex value \<open>kompleks\<close>\<close>

text \<open>
  Modelled from the spec: the header \<open>kompleks.hpp\<close> is not among the sources. The spec
  (section 3) gives a value of two components with add, subtract, multiply, divide,
  conjugate, swap-components, reciprocal, squared-norm, modulus, and a generalised power
  in polar form, \<open>r^e * (cos(e\<theta>) + i sin(e\<theta>))\<close> with \<open>r, \<theta>\<close> the modulus and argument of
  the base. A default-constructed value is zero (section 4.4), and equality is the exact
  match of both components (sections 3 and 9).
\<close>

datatype kompleks = Kompleks (real_part: ldouble) (imag_part: ldouble)

definition kompleks_default :: kompleks where
  "kompleks_default = Kompleks (Fin 0) (Fin 0)"

definition kompleks_eq :: "kompleks \<Rightarrow> kompleks \<Rightarrow> bool" where
  "kompleks_eq z w = (ld_eq (real_part z) (real_part w) \<and> ld_eq (imag_part z) (imag_part w))"

definition conjugate :: "kompleks \<Rightarrow> kompleks" where
  "conjugate z = Kompleks (real_part z) (- imag_part z)"

definition swap_xy :: "kompleks \<Rightarrow> kompleks" where
  "swap_xy z = Kompleks (imag_part z) (real_part z)"

definition norm_k :: "kompleks \<Rightarrow> ldouble" where
  "norm_k z = real_part z * real_part z + imag_part z * imag_part z"

definition abs_k :: "kompleks \<Rightarrow> ldouble" where
  "abs_k z = ld_sqrt (norm_k z)"

definition arg_k :: "kompleks \<Rightarrow> ldouble" where
  "arg_k z = ld_atan2 (imag_part z) (real_part z)"

definition reciprocal :: "kompleks \<Rightarrow> kompleks" where
  "reciprocal z = Kompleks (real_part z / norm_k z) (- imag_part z / norm_k z)"

instantiation kompleks :: "{plus, minus, times, inverse}"
begin

definition plus_kompleks :: "kompleks \<Rightarrow> kompleks \<Rightarrow> kompleks" where
  "plus_kompleks z w = Kompleks (real_part z + real_part w) (imag_part z + imag_part w)"

definition minus_kompleks :: "kompleks \<Rightarrow> kompleks \<Rightarrow> kompleks" where
  "minus_kompleks z w = Kompleks (real_part z - real_part w) (imag_part z - imag_part w)"

definition times_kompleks :: "kompleks \<Rightarrow> kompleks \<Rightarrow> kompleks" where
  "times_kompleks z w =
     Kompleks (real_part z * real_part w - imag_part z * imag_part w)
              (real_part z * imag_part w + imag_part z * real_part w)"

definition divide_kompleks :: "kompleks \<Rightarrow> kompleks \<Rightarrow> kompleks" where
  "divide_kompleks z w =
     Kompleks ((real_part z * real_part w + imag_part z * imag_part w) / norm_k w)
              ((imag_part z * real_part w - real_part z * imag_part w) / norm_k w)"

definition inverse_kompleks :: "kompleks \<Rightarrow> kompleks" where
  "inverse_kompleks z = reciprocal z"

instance ..

end

text \<open>The operators that mix a scalar and a complex value act on the components.\<close>

definition scale_k :: "ldouble \<Rightarrow> kompleks \<Rightarrow> kompleks" where
  "scale_k a z = Kompleks (a * real_part z) (a * imag_part z)"

definition div_scalar_k :: "kompleks \<Rightarrow> ldouble \<Rightarrow> kompleks" where
  "div_scalar_k z a = Kompleks (real_part z / a) (imag_part z / a)"

definition add_scalar_k :: "ldouble \<Rightarrow> kompleks \<Rightarrow> kompleks" where
  "add_scalar_k a z = Kompleks (a + real_part z) (imag_part z)"

definition sub_scalar_k :: "kompleks \<Rightarrow> ldouble \<Rightarrow> kompleks" where
  "sub_scalar_k z a = Kompleks (real_part z - a) (imag_part z)"

text \<open>The power \<open>Z ^ e\<close> in polar form.\<close>

definition pow_k :: "kompleks \<Rightarrow> ldouble \<Rightarrow> kompleks" where
  "pow_k z e =
     (let r = ld_pow (abs_k z) e; t = e * arg_k z
      in Kompleks (r * ld_cos t) (r * ld_sin t))"

text \<open>The complex cosine, exponential and logarithm, and \<open>std::pow\<close> of two complex
  values, which the C++ standard defines as \<open>exp(w * log(z))\<close>.\<close>

definition cos_k :: "kompleks \<Rightarrow> kompleks" where
  "cos_k z =
     Kompleks (ld_cos (real_part z) * ld_cosh (imag_part z))
              (- (ld_sin (real_part z) * ld_sinh (imag_part z)))"

definition exp_k :: "kompleks \<Rightarrow> kompleks" where
  "exp_k z =
     Kompleks (ld_exp (real_part z) * ld_cos (imag_part z))
              (ld_exp (real_part z) * ld_sin (imag_part z))"

definition log_k :: "kompleks \<Rightarrow> kompleks" where
  "log_k z = Kompleks (ld_log (abs_k z)) (arg_k z)"

definition std_pow :: "kompleks \<Rightarrow> kompleks \<Rightarrow> kompleks" where
  "std_pow z w = exp_k (w * log_k z)"

section \<open>Options and global variables\<close>

datatype FractalType =
    mandelbrot | julia | burning_ship | tricorn | neuron | clouds | oops_type | stupidbrot
  | untitled1 | dots | magnet1 | experiment_type | mandelbox | negamandelbrot | collatz
  | experiment2

definition FractalType_strings :: "(string \<times> FractalType) list" where
  "FractalType_strings =
     [(''mandelbrot'', mandelbrot), (''julia'', julia), (''burning ship'', burning_ship),
      (''tricorn'', tricorn), (''neuron'', neuron), (''clouds'', clouds), (''oops'', oops_type),
      (''stupidbrot'', stupidbrot), (''untitled 1'', untitled1), (''dots'', dots),
      (''magnet 1'', magnet1), (''experiment'', experiment_type), (''mandelbox'', mandelbox),
      (''negamandelbrot'', negamandelbrot), (''collatz'', collatz),
      (''experiment2'', experiment2)]"

text \<open>What the program throws (\<open>std::runtime_error\<close>), and the one other way a run can
  fail to go on: a loop that does not end.\<close>

datatype error =
    Unknown_fractal_type string
  | Invalid_color_method nat
  | HSV_index_out_of_range nat
  | Endless_loop

fun string_to_fractal_type_from :: "(string \<times> FractalType) list \<Rightarrow> string \<Rightarrow> error + FractalType" where
  "string_to_fractal_type_from [] typestr = Inl (Unknown_fractal_type typestr)"
| "string_to_fractal_type_from ((name, t) # rest) typestr =
     (if typestr = name then Inr t else string_to_fractal_type_from rest typestr)"

definition string_to_fractal_type :: "string \<Rightarrow> error + FractalType" where
  "string_to_fractal_type typestr = string_to_fractal_type_from FractalType_strings typestr"

record FractalOptions =
  type :: FractalType
  exponent :: ldouble
  escape_limit :: ldouble
  single :: bool
  lbound :: ldouble
  rbound :: ldouble
  bbound :: ldouble
  ubound :: ldouble
  juliaA :: ldouble
  juliaB :: ldouble

record ColorOptions =
  method_index :: nat
  smooth :: bool
  disable_fancy :: bool
  multiplier :: ldouble
  c_log :: nat

text \<open>The static variables of the program. \<open>width_px\<close> and \<open>height_px\<close> are 32-bit and
  \<open>max_iterations\<close> is 64-bit in the program; the model keeps their values as natural
  numbers and writes the wrap-around out where the program's arithmetic can overflow.\<close>

record globals =
  fractal_opt :: FractalOptions
  color_opt :: ColorOptions
  width_px :: nat
  height_px :: nat
  max_iterations :: nat
  pCheckN :: nat

section \<open>The recurrence \<open>iterate\<close>\<close>

definition boxfold :: "ldouble \<Rightarrow> ldouble" where
  "boxfold component =
     (if component > Fin 1 then Fin 2 - component
      else if component < Fin (- 1) then Fin (- 2) - component
      else component)"

text \<open>\<open>iterate\<close> takes \<open>c\<close> by reference: the model returns the new \<open>Z\<close> and the value of
  \<open>c\<close> after the call.\<close>

definition iterate :: "FractalOptions \<Rightarrow> kompleks \<Rightarrow> kompleks \<Rightarrow> nat \<Rightarrow> kompleks \<times> kompleks" where
  "iterate opt Z c n =
     (case type opt of
        mandelbrot \<Rightarrow> (pow_k Z (exponent opt) + c, c)
      | julia \<Rightarrow> (pow_k Z (exponent opt) + c, c)
      | burning_ship \<Rightarrow>
          (let real_abs = ld_abs (real_part Z); imag_abs = ld_abs (imag_part Z)
           in (pow_k (Kompleks real_abs imag_abs) (exponent opt) + c, c))
      | tricorn \<Rightarrow> (pow_k (conjugate Z) (exponent opt) + c, c)
      | neuron \<Rightarrow> (pow_k (swap_xy Z) (exponent opt) + Z, c)
      | clouds \<Rightarrow> (let new_z = pow_k (swap_xy Z) (exponent opt) + c in (new_z, Z))
      | oops_type \<Rightarrow> (let new_z = pow_k (swap_xy Z) (exponent opt) + c in (new_z, Z))
      | stupidbrot \<Rightarrow>
          (let Z1 = pow_k Z (exponent opt)
           in if n mod 2 = 0 then (Z1 + c, c) else (Z1 - c, c))
      | untitled1 \<Rightarrow> (std_pow Z Z + Z, c)
      | dots \<Rightarrow> (pow_k Z (exponent opt) * reciprocal c, c)
      | magnet1 \<Rightarrow>
          (pow_k ((pow_k Z (Fin 2) + sub_scalar_k c (Fin 1))
                    / (scale_k (Fin 2) Z + sub_scalar_k c (Fin 2))) (Fin 2), c)
      | experiment_type \<Rightarrow> (pow_k Z (exponent opt) + reciprocal c, c)
      | mandelbox \<Rightarrow>
          (let Z1 = Kompleks (boxfold (real_part Z)) (boxfold (imag_part Z));
               Z2 = (if abs_k Z1 < Fin 0.5 then div_scalar_k Z1 (Fin 0.25)
                     else if abs_k Z1 < Fin 1 then div_scalar_k Z1 (norm_k Z1)
                     else Z1)
           in (scale_k (exponent opt) Z2 + c, c))
      | negamandelbrot \<Rightarrow> (pow_k Z (Fin 1 / exponent opt) - c, c)
      | collatz \<Rightarrow>
          (div_scalar_k
             (add_scalar_k (Fin 2) (scale_k (Fin 7) Z)
                - add_scalar_k (Fin 2) (scale_k (Fin 5) Z) * cos_k (scale_k (Fin pi) Z))
             (Fin 4), c)
      | experiment2 \<Rightarrow> (pow_k Z (exponent opt) + pow_k c (Fin 1 / exponent opt), c))"

section \<open>The analytic shortcut \<open>can_skip\<close>\<close>

definition can_skip :: "FractalOptions \<Rightarrow> ldouble \<Rightarrow> ldouble \<Rightarrow> bool" where
  "can_skip opt x y =
     (if single opt \<or> type opt \<noteq> mandelbrot \<or> \<not> ld_eq (escape_limit opt) (Fin 4) then False
      else if ld_eq (exponent opt) (Fin 2) then
        (let y2 = y * y; xo = x - Fin 0.25; q = xo * xo + y2
         in q * (q + xo) < Fin 0.25 * y2
            \<or> (x + Fin 1) * (x + Fin 1) + y2 < Fin 0.0625)
      else if ld_eq (exponent opt) (Fin 3)
              \<and> (let y2 = y * y
                 in x * x < Fin 4 / Fin 27 - y2 + ld_pow (Fin 4 * y2) (Fin 1 / Fin 3) / Fin 3)
        then True
      else if ld_eq (exponent opt) (Fin 4) then
        x * x + y * y < Fin 0.2232282729330280511369586055226683491
      else if ld_eq (exponent opt) (Fin 5) then
        x * x + y * y < Fin 0.2862167011199730811403742295976033581
      else False)"

section \<open>The colour formulas \<open>colorize\<close>\<close>

record rgb_pixel =
  red :: "8 word"
  green :: "8 word"
  blue :: "8 word"

text \<open>A conversion \<open>static_cast\<close> of a floating-point value to an integer type truncates
  towards zero. When the truncated value is not a value of the integer type (a NaN and
  the infinities never are) the language fixes no result, but nothing is thrown: the
  program goes on with whatever the conversion left. The model takes 0 for it, which is
  what the conversion of a NaN to \<open>uint8_t\<close> leaves on x86-64. The result has the type of
  the steps that can throw, with which the conversions are sequenced; it is never an
  error.\<close>

definition trunc_to_zero :: "real \<Rightarrow> int" where
  "trunc_to_zero a = (if 0 \<le> a then \<lfloor>a\<rfloor> else \<lceil>a\<rceil>)"

definition cast_to :: "int \<Rightarrow> int \<Rightarrow> ldouble \<Rightarrow> error + int" where
  "cast_to lo hi x =
     (case x of
        Fin a \<Rightarrow> (if lo \<le> trunc_to_zero a \<and> trunc_to_zero a \<le> hi then Inr (trunc_to_zero a)
                  else Inr 0)
      | _ \<Rightarrow> Inr 0)"

definition UINT_FAST64_MAX :: nat where
  "UINT_FAST64_MAX = 2 ^ 64 - 1"

definition INT128_MAX :: int where
  "INT128_MAX = 2 ^ 127 - 1"

definition cast_uint8 :: "ldouble \<Rightarrow> error + nat" where
  "cast_uint8 x = map_sum id nat (cast_to 0 255 x)"

definition cast_uint64 :: "ldouble \<Rightarrow> error + nat" where
  "cast_uint64 x = map_sum id nat (cast_to 0 (int UINT_FAST64_MAX) x)"

definition cast_int128 :: "ldouble \<Rightarrow> error + int" where
  "cast_int128 x = cast_to (- INT128_MAX - 1) INT128_MAX x"

definition bind_result :: "error + 'a \<Rightarrow> ('a \<Rightarrow> error + 'b) \<Rightarrow> error + 'b" where
  "bind_result r f = (case r of Inl e \<Rightarrow> Inl e | Inr v \<Rightarrow> f v)"

text \<open>Arithmetic of \<open>uint_fast64_t\<close>: 64 bits, wrapping.\<close>

definition u64 :: "nat \<Rightarrow> nat" where
  "u64 k = k mod 2 ^ 64"

definition shl64 :: "nat \<Rightarrow> nat \<Rightarrow> nat" where
  "shl64 k i = u64 (k * 2 ^ i)"

definition shr64 :: "nat \<Rightarrow> nat \<Rightarrow> nat" where
  "shr64 k i = k div 2 ^ i"

text \<open>The two loops of \<open>HSV2RGB\<close> that bring the hue into the interval from 0 to 1. On
  an infinite hue the loop never ends.\<close>

function hue_up :: "real \<Rightarrow> real" where
  "hue_up h = (if h < 0 then hue_up (h + 1) else h)"
  by pat_completeness auto
termination
proof (relation "measure (\<lambda>h. nat \<lceil>- h\<rceil>)")
  show "wf (measure (\<lambda>h::real. nat \<lceil>- h\<rceil>))" by simp
next
  fix h :: real assume "h < 0"
  then have "\<lceil>- (h + 1)\<rceil> = \<lceil>- h\<rceil> - 1" "0 < \<lceil>- h\<rceil>" by linarith+
  then show "(h + 1, h) \<in> measure (\<lambda>h. nat \<lceil>- h\<rceil>)" by simp
qed

function hue_down :: "real \<Rightarrow> real" where
  "hue_down h = (if 1 \<le> h then hue_down (h - 1) else h)"
  by pat_completeness auto
termination
proof (relation "measure (\<lambda>h. nat \<lceil>h\<rceil>)")
  show "wf (measure (\<lambda>h::real. nat \<lceil>h\<rceil>))" by simp
next
  fix h :: real assume "1 \<le> h"
  then have "0 < \<lceil>h\<rceil>" by simp
  then show "(h - 1, h) \<in> measure (\<lambda>h. nat \<lceil>h\<rceil>)" by simp
qed

definition hue_loops :: "ldouble \<Rightarrow> error + ldouble" where
  "hue_loops h =
     (case h of
        Fin a \<Rightarrow> Inr (Fin (hue_down (hue_up a)))
      | NaN \<Rightarrow> Inr NaN
      | _ \<Rightarrow> Inl Endless_loop)"

definition HSV2RGB :: "ldouble \<Rightarrow> ldouble \<Rightarrow> ldouble \<Rightarrow> error + nat \<times> nat \<times> nat" where
  "HSV2RGB h0 s v0 =
     bind_result (hue_loops h0) (\<lambda>h1.
     let h = h1 * Fin 6 in
     bind_result (cast_uint8 h) (\<lambda>index.
     let f = h - ld_of_nat index;
         p = (v0 * (Fin 1 - s)) * Fin 255;
         q = (v0 * (Fin 1 - s * f)) * Fin 255;
         t = (v0 * (Fin 1 - s * (Fin 1 - f))) * Fin 255;
         v = v0 * Fin 255;
         dst = (\<lambda>a b c.
           bind_result (cast_uint8 a) (\<lambda>d0.
           bind_result (cast_uint8 b) (\<lambda>d1.
           bind_result (cast_uint8 c) (\<lambda>d2. Inr (d0, d1, d2)))))
     in if index = 0 then dst v t p
        else if index = 1 then dst q v p
        else if index = 2 then dst p v t
        else if index = 3 then dst p q v
        else if index = 4 then dst t p v
        else if index = 5 then dst v p q
        else Inl (HSV_index_out_of_range index)))"

text \<open>The generator of the C library is outside the program: \<open>libc_rand seed k\<close> is what
  the \<open>k\<close>-th call of \<open>rand\<close> after \<open>srand(seed)\<close> returns. Colour method 14 seeds it anew
  at every call, so its state between the calls is not kept.\<close>

type_synonym libc = "nat \<Rightarrow> nat \<Rightarrow> nat"

text \<open>The fractional iteration count of the methods 0 and 1.\<close>

definition smooth_dx :: "FractalOptions \<Rightarrow> kompleks \<Rightarrow> ldouble" where
  "smooth_dx fopt Z =
     (ld_log (ld_log (escape_limit fopt)) - ld_log (ld_log (abs_k Z))) / ld_log (exponent fopt)"

text \<open>The body of each \<open>case\<close> of the \<open>switch\<close>: the three channels before the common
  tail. Method 9 is given the pixel that its call of \<open>colorize(0, Z, c, n)\<close> returned.\<close>

definition channels_0 :: "FractalOptions \<Rightarrow> ColorOptions \<Rightarrow> kompleks \<Rightarrow> nat \<Rightarrow> ldouble \<times> ldouble \<times> ldouble" where
  "channels_0 fopt copt Z n =
     (if smooth copt then
        (let dx = smooth_dx fopt Z; nprime = ld_of_nat n + dx
         in (ld_round (nprime * Fin 2), ld_round nprime, ld_round (nprime / Fin 2)))
      else (ld_of_nat (shl64 n 1), ld_of_nat n, ld_of_nat (shr64 n 1)))"

definition channels_1 :: "FractalOptions \<Rightarrow> ColorOptions \<Rightarrow> kompleks \<Rightarrow> nat \<Rightarrow> ldouble \<times> ldouble \<times> ldouble" where
  "channels_1 fopt copt Z n =
     (let Zr2 = real_part Z * real_part Z; Zi2 = imag_part Z * imag_part Z;
          red0 = (if \<not> disable_fancy copt then Zr2 else Fin 0);
          blue0 = (if \<not> disable_fancy copt then Zi2 else Fin 0);
          green0 = (if smooth copt then ld_round (ld_of_nat n + smooth_dx fopt Z)
                    else ld_of_nat n)
      in if green0 > Fin 255 then
           (let difference = green0 - Fin 255; blue1 = difference * Fin 2
            in if blue1 > Fin 255 then (blue1 * Fin 2, Fin 200, Fin 200)
               else (red0, Fin 255, blue1))
         else (red0, green0, blue0))"

definition glow :: "ldouble \<Rightarrow> ldouble \<Rightarrow> ldouble \<Rightarrow> ldouble" where
  "glow Zr2 bound numerator =
     (if Zr2 \<le> bound then ld_of_nat UINT_FAST64_MAX else ld_round (numerator / Zr2))"

definition glow_zero :: "ldouble \<Rightarrow> ldouble \<Rightarrow> ldouble" where
  "glow_zero Zr2 numerator =
     (if ld_eq Zr2 (Fin 0) then ld_of_nat UINT_FAST64_MAX else ld_round (numerator / Zr2))"

definition channels_8 :: "kompleks \<Rightarrow> nat \<Rightarrow> error + ldouble \<times> ldouble \<times> ldouble" where
  "channels_8 Z n =
     (let Zr2 = real_part Z * real_part Z; Zi2 = imag_part Z * imag_part Z;
          red0 = (if ld_eq Zr2 (Fin 0) then PInf else Zi2 / Zr2 + ld_of_nat (shl64 n 1));
          green0 = (if ld_eq Zi2 (Fin 0) then PInf else Zr2 / Zi2 + ld_of_nat n)
      in bind_result
           (if Zi2 > ld_of_int (INT128_MAX div 255) \<or> Zr2 > ld_of_int (INT128_MAX div 255)
            then Inr (ld_of_int INT128_MAX)
            else bind_result (cast_int128 (ld_round (Zi2 * Fin 255))) (\<lambda>a.
                 bind_result (cast_int128 (ld_round (Zr2 * Fin 255))) (\<lambda>b.
                 Inr (ld_of_int (a XOR b)))))
           (\<lambda>blue0.
              let red1 = red0 + blue0 * Fin 0.5; green1 = green0 + blue0 * Fin 0.2
              in Inr (red1 * Fin 0.1, green1 * Fin 0.1, blue0 * Fin 0.1)))"

text \<open>\<open>x -= (k > x ? x : k)\<close> for a floating-point \<open>x\<close> and a 64-bit \<open>k\<close>, and the same for
  two 64-bit values.\<close>

definition take_off :: "ldouble \<Rightarrow> nat \<Rightarrow> ldouble" where
  "take_off x k = x - (if ld_of_nat k > x then x else ld_of_nat k)"

definition take_off64 :: "nat \<Rightarrow> nat \<Rightarrow> nat" where
  "take_off64 x k = x - (if k > x then x else k)"

definition cap255 :: "ldouble \<Rightarrow> ldouble" where
  "cap255 x = (if x > Fin 255 then Fin 255 else x)"

definition channels_9 :: "ColorOptions \<Rightarrow> kompleks \<Rightarrow> rgb_pixel \<Rightarrow> error + ldouble \<times> ldouble \<times> ldouble" where
  "channels_9 copt Z color_fractal =
     (let Zr2 = real_part Z * real_part Z; Zi2 = imag_part Z * imag_part Z;
          red_fractal = unat (red color_fractal);
          green_fractal = unat (green color_fractal);
          blue_fractal = unat (blue color_fractal);
          xored = (\<lambda>k.
            bind_result (cast_uint64 (ld_round (Zr2 * Fin k))) (\<lambda>a.
            bind_result (cast_uint64 (ld_round (Zi2 * Fin k))) (\<lambda>b.
            Inr (ld_of_nat (a XOR b)))))
      in bind_result (xored 8) (\<lambda>red0.
         bind_result (xored 2) (\<lambda>green0.
         bind_result (xored 4) (\<lambda>blue0.
         bind_result
           (if ld_eq Zr2 (Fin 0) then Inr 255 else cast_uint64 (ld_round (Zi2 / Zr2)))
           (\<lambda>blue_stripe0.
         bind_result
           (if ld_eq Zi2 (Fin 0) then Inr 255 else cast_uint64 (ld_round (Zr2 / Zi2)))
           (\<lambda>green_stripe0.
         let green_stripe1 = u64 (green_stripe0 + blue_stripe0);
             red1 = cap255 (red0 * Fin 0.7 * multiplier copt);
             green1 = cap255 (green0 * Fin 0.7 * multiplier copt);
             blue1 = cap255 (blue0 * Fin 0.7 * multiplier copt);
             green_stripe2 = (if green_stripe1 > 255 then 255 else green_stripe1);
             blue_stripe1 = (if blue_stripe0 > 255 then 255 else blue_stripe0);
             red2 = take_off (take_off red1 blue_stripe1) green_stripe2;
             green2 = take_off (take_off green1 blue_stripe1) green_stripe2;
             blue2 = take_off (take_off blue1 blue_stripe1) green_stripe2;
             sub = red_fractal + green_fractal + blue_fractal;
             red3 = take_off red2 sub;
             green_stripe3 = take_off64 green_stripe2 sub;
             blue_stripe2 = take_off64 blue_stripe1 sub
         in Inr (red3 + ld_of_nat red_fractal,
                 green2 + ld_of_nat (green_stripe3 + green_fractal),
                 blue2 + ld_of_nat (blue_stripe2 + blue_fractal))))))))"

definition channels_15 :: "nat \<Rightarrow> error + ldouble \<times> ldouble \<times> ldouble" where
  "channels_15 n =
     bind_result (HSV2RGB (ld_of_nat (n mod 256) / Fin 256) (Fin 1) (Fin 1))
       (\<lambda>(c0, c1, c2). Inr (ld_of_nat c0, ld_of_nat c1, ld_of_nat c2))"

text \<open>The cases of the \<open>switch\<close> other than 9, whose body calls \<open>colorize\<close> itself.\<close>

definition channels :: "libc \<Rightarrow> FractalOptions \<Rightarrow> ColorOptions \<Rightarrow> nat \<Rightarrow> kompleks \<Rightarrow> nat \<Rightarrow> error + ldouble \<times> ldouble \<times> ldouble" where
  "channels rnd fopt copt color_method Z n =
     (let Zr2 = real_part Z * real_part Z; Zi2 = imag_part Z * imag_part Z
      in if color_method = 0 then Inr (channels_0 fopt copt Z n)
      else if color_method = 1 then Inr (channels_1 fopt copt Z n)
      else if color_method = 2 then
        Inr (Zr2 * Zi2, Zr2 + Zi2, if ld_eq Zi2 (Fin 0) then PInf else Zr2 / Zi2)
      else if color_method = 3 then
        Inr (if ld_eq Zr2 (Fin 0) then PInf else (Zr2 * Zr2 * Zr2 + Fin 1) / Zr2,
             if ld_eq Zr2 (Fin 0) then PInf else Zi2 / Zr2,
             Zi2 * Zi2)
      else if color_method = 4 then
        (let v = real_part Z * ld_sin (imag_part Z + Zi2) - Zr2 in Inr (v, v, v))
      else if color_method = 5 then
        Inr (glow Zr2 (Fin 1 / ld_of_nat UINT_FAST64_MAX) (Fin 1),
             glow Zr2 (Fin 0.00588) (Fin 1.5),
             glow Zr2 (Fin 0.00294) (Fin 0.75))
      else if color_method = 6 then
        Inr (glow_zero Zr2 (Fin 1.5), glow_zero Zr2 (Fin 0.75), glow_zero Zr2 (Fin 1))
      else if color_method = 7 then
        Inr (glow Zr2 (Fin 0.00294) (Fin 0.75),
             glow Zr2 (Fin 0.00392) (Fin 1),
             glow Zr2 (Fin 0.00588) (Fin 1.5))
      else if color_method = 8 then channels_8 Z n
      else if color_method = 10 then
        Inr (ld_of_nat (shl64 n 1 XOR n), ld_of_nat n, ld_of_nat (shr64 n 1 XOR n))
      else if color_method = 11 then Inr (Zr2, Zr2 * Zi2, Zi2)
      else if color_method = 12 then Inr (Fin 255, Fin 255, Fin 255)
      else if color_method = 13 then
        Inr (ld_of_nat (u64 (shl64 n 2 + 5)), ld_of_nat (u64 (shl64 n 1 + 1)),
             ld_of_nat (u64 (shl64 n 2 + 2)))
      else if color_method = 14 then
        (let seed = n mod 2 ^ 32
         in Inr (ld_of_nat (rnd seed 0 AND 255), ld_of_nat (rnd seed 1 AND 255),
                 ld_of_nat (rnd seed 2 AND 255)))
      else if color_method = 15 then channels_15 n
      else if color_method = 16 then
        Inr (ld_of_nat (u64 (n * n)) * Fin 0.1, ld_of_nat n, Zr2 * Zi2)
      else if color_method = 17 then
        (let r = Fin 2 * ld_sin Zr2; g = Fin 2 * ld_cos Zi2; b = r * g
         in Inr (r * Fin 127, g * Fin 127, b * Fin 127))
      else Inl (Invalid_color_method color_method))"

text \<open>The tail of \<open>colorize\<close>, after the \<open>switch\<close>: the logarithm passes, the multiplier,
  the clamp, and the rounding and conversion to the 8-bit channels.\<close>

fun log_passes :: "nat \<Rightarrow> ldouble \<times> ldouble \<times> ldouble \<Rightarrow> ldouble \<times> ldouble \<times> ldouble" where
  "log_passes 0 rgb = rgb"
| "log_passes (Suc i) (r, g, b) = log_passes i (ld_log r, ld_log g, ld_log b)"

definition apply_multiplier :: "ColorOptions \<Rightarrow> nat \<Rightarrow> ldouble \<Rightarrow> ldouble" where
  "apply_multiplier copt color_method x =
     (if color_method \<noteq> 9 then x * multiplier copt else x)"

definition clamp :: "ldouble \<Rightarrow> ldouble" where
  "clamp x = (if x > Fin 255 then Fin 255 else if x < Fin 0 then Fin 0 else x)"

definition to_channel :: "ldouble \<Rightarrow> error + 8 word" where
  "to_channel x = map_sum id word_of_nat (cast_uint8 (ld_round x))"

definition finish :: "ColorOptions \<Rightarrow> nat \<Rightarrow> ldouble \<times> ldouble \<times> ldouble \<Rightarrow> error + rgb_pixel" where
  "finish copt color_method rgb =
     (case log_passes (c_log copt) rgb of (r0, g0, b0) \<Rightarrow>
        bind_result (to_channel (clamp (apply_multiplier copt color_method r0))) (\<lambda>r.
        bind_result (to_channel (clamp (apply_multiplier copt color_method g0))) (\<lambda>g.
        bind_result (to_channel (clamp (apply_multiplier copt color_method b0))) (\<lambda>b.
        Inr \<lparr>red = r, green = g, blue = b\<rparr>))))"

function colorize :: "libc \<Rightarrow> FractalOptions \<Rightarrow> ColorOptions \<Rightarrow> nat \<Rightarrow> kompleks \<Rightarrow> kompleks \<Rightarrow> nat \<Rightarrow> error + rgb_pixel" where
  "colorize rnd fopt copt color_method Z c n =
     (if color_method = 9 then
        (case colorize rnd fopt copt 0 Z c n of
           Inl e \<Rightarrow> Inl e
         | Inr color_fractal \<Rightarrow>
             (case channels_9 copt Z color_fractal of
                Inl e \<Rightarrow> Inl e
              | Inr rgb \<Rightarrow> finish copt color_method rgb))
      else
        (case channels rnd fopt copt color_method Z n of
           Inl e \<Rightarrow> Inl e
         | Inr rgb \<Rightarrow> finish copt color_method rgb))"
  by pat_completeness auto
termination
  by (relation "measure (\<lambda>(rnd, fopt, copt, color_method, Z, c, n). color_method)") auto

section \<open>The renderer \<open>createFractal\<close>\<close>

text \<open>
  What the run takes from outside the program: the generator of the C library, the
  readings of \<open>std::chrono::steady_clock\<close> (the \<open>k\<close>-th call of \<open>now\<close> returns \<open>clock k\<close>, in
  nanoseconds), and the signal. The handler of SIGINT sets the flag \<open>cancel\<close> and nothing
  clears it: with \<open>sigint = Some t\<close> the first \<open>t\<close> reads of the flag see it clear and every
  later read sees it set; with \<open>None\<close> no signal arrives.
\<close>

record env =
  rnd :: libc
  clock :: "nat \<Rightarrow> int"
  sigint :: "nat option"

text \<open>
  The local variables of \<open>createFractal\<close> that live across pixels, with the number of
  reads of the clock and of the flag so far, and the calls of \<open>print_progress\<close> (its
  arguments \<open>currentPoint\<close> and \<open>totalPoints\<close>; the text it prints is not modelled). A pixel
  that \<open>set_pixel\<close> never wrote keeps the value the image was created with, and is absent
  from the map \<open>image\<close>. The counters are 64-bit; all but \<open>run\<close> are bounded by the number
  of pixels, which is below \<open>2^64\<close>.
\<close>

record render =
  currentPoint :: nat
  periodic :: nat
  escaped :: nat
  not_escaped :: nat
  skipped :: nat
  run :: nat
  max_n :: nat
  max_period :: nat
  max_period_n :: nat
  image :: "nat \<times> nat \<rightharpoonup> rgb_pixel"
  pCheck :: "kompleks list"
  cur_c :: kompleks
  previous_time :: int
  clock_reads :: nat
  cancel_reads :: nat
  progress :: "(nat \<times> nat) list"

definition cancel_now :: "env \<Rightarrow> render \<Rightarrow> bool" where
  "cancel_now e s = (case sigint e of None \<Rightarrow> False | Some t \<Rightarrow> t \<le> cancel_reads s)"

definition after_read :: "render \<Rightarrow> render" where
  "after_read s = s\<lparr>cancel_reads := cancel_reads s + 1\<rparr>"

text \<open>The loop over \<open>n\<close> for one pixel. It ends by \<open>break\<close>, by the \<open>goto\<close>, or by the
  exception of \<open>colorize\<close>: the result is the exception, if any, and the state then.\<close>

function iterations :: "env \<Rightarrow> globals \<Rightarrow> nat \<Rightarrow> nat \<Rightarrow> kompleks \<Rightarrow> nat \<Rightarrow> render \<Rightarrow> error option \<times> render" where
  "iterations e g pX pY Z n s =
     (if n \<le> max_iterations g then
        (let s1 = s\<lparr>run := u64 (run s + 1)\<rparr> in
         if (single (fractal_opt g) \<and> n = max_iterations g)
            \<or> (\<not> single (fractal_opt g) \<and> norm_k Z > escape_limit (fractal_opt g) \<and> n > 0)
         then
           (let s2 = s1\<lparr>escaped := escaped s1 + 1,
                        max_n := (if n > max_n s1 then n else max_n s1)\<rparr> in
            case colorize (rnd e) (fractal_opt g) (color_opt g) (method_index (color_opt g))
                   Z (cur_c s2) n of
              Inl err \<Rightarrow> (Some err, s2)
            | Inr px \<Rightarrow> (None, s2\<lparr>image := (image s2)((pX, pY) \<mapsto> px)\<rparr>))
         else if n = max_iterations g then
           (None, s1\<lparr>not_escaped := not_escaped s1 + 1\<rparr>)
         else
           (let Z' = fst (iterate (fractal_opt g) Z (cur_c s1) n);
                s2 = s1\<lparr>cur_c := snd (iterate (fractal_opt g) Z (cur_c s1) n)\<rparr> in
            if \<not> single (fractal_opt g) \<and> pCheckN g > 0 then
              (let location = dropWhile (\<lambda>w. \<not> kompleks_eq w Z') (pCheck s2) in
               if location \<noteq> [] then
                 (let pCheckIndex = length location in
                  (None,
                   s2\<lparr>max_period :=
                        (if pCheckIndex > max_period s2 then pCheckIndex else max_period s2),
                      max_period_n := (if n > max_period_n s2 then n else max_period_n s2),
                      periodic := periodic s2 + 1\<rparr>))
               else
                 (let s3 = s2\<lparr>pCheck := tl (pCheck s2) @ [Z']\<rparr> in
                  if cancel_now e s3 then (None, after_read s3)
                  else iterations e g pX pY Z' (n + 1) (after_read s3)))
            else if cancel_now e s2 then (None, after_read s2)
            else iterations e g pX pY Z' (n + 1) (after_read s2)))
      else (None, s))"
  by pat_completeness auto
termination
  by (relation "measure (\<lambda>(e, g, pX, pY, Z, n, s). max_iterations g + 1 - n)") auto

text \<open>\<open>totalPoints\<close> is the product of two 32-bit values, computed in 32 bits.\<close>

definition totalPoints :: "globals \<Rightarrow> nat" where
  "totalPoints g = (width_px g * height_px g) mod 2 ^ 32"

definition report_progress :: "env \<Rightarrow> globals \<Rightarrow> render \<Rightarrow> render" where
  "report_progress e g s =
     (let current_time = clock e (clock_reads s);
          s1 = s\<lparr>clock_reads := clock_reads s + 1\<rparr>
      in if current_time - previous_time s1 \<ge> 1000000000
         then s1\<lparr>progress := progress s1 @ [(currentPoint s1, totalPoints g)],
                previous_time := current_time\<rparr>
         else s1)"

definition xinterval :: "globals \<Rightarrow> ldouble" where
  "xinterval g =
     (rbound (fractal_opt g) - lbound (fractal_opt g)) / ld_of_nat (width_px g)"

definition yinterval :: "globals \<Rightarrow> ldouble" where
  "yinterval g =
     (ubound (fractal_opt g) - bbound (fractal_opt g)) / ld_of_nat (height_px g)"

definition point_x :: "globals \<Rightarrow> nat \<Rightarrow> ldouble" where
  "point_x g pX =
     lbound (fractal_opt g) + ld_of_nat pX * xinterval g + xinterval g / Fin 2"

definition point_y :: "globals \<Rightarrow> nat \<Rightarrow> ldouble" where
  "point_y g pY =
     ubound (fractal_opt g) - ld_of_nat pY * yinterval g - yinterval g / Fin 2"

text \<open>The end of the body of the loop over \<open>pX\<close>, after the loop over \<open>n\<close>: an
  exception leaves the function; otherwise \<open>cancel\<close> is tested, and either the \<open>break\<close> is
  taken or \<open>currentPoint\<close> is incremented.\<close>

definition end_of_pixel :: "env \<Rightarrow> error option \<times> render \<Rightarrow> error option \<times> bool \<times> render" where
  "end_of_pixel e r =
     (case r of
        (Some err, s1) \<Rightarrow> (Some err, False, s1)
      | (None, s1) \<Rightarrow>
          (if cancel_now e s1 then (None, True, after_read s1)
           else (None, False, (after_read s1)\<lparr>currentPoint := currentPoint s1 + 1\<rparr>)))"

text \<open>The body of the loop over \<open>pX\<close>: the exception, if any, whether the \<open>break\<close> was
  taken, and the state.\<close>

definition pixel :: "env \<Rightarrow> globals \<Rightarrow> nat \<Rightarrow> nat \<Rightarrow> render \<Rightarrow> error option \<times> bool \<times> render" where
  "pixel e g pX pY s0 =
     (let s = report_progress e g s0;
          x = point_x g pX;
          y = point_y g pY
      in end_of_pixel e
           (if can_skip (fractal_opt g) x y then (None, s\<lparr>skipped := skipped s + 1\<rparr>)
            else
              (let Z = (if type (fractal_opt g) \<noteq> clouds \<and> type (fractal_opt g) \<noteq> mandelbrot
                        then Kompleks x y else kompleks_default);
                   c = (if type (fractal_opt g) = julia
                        then Kompleks (juliaA (fractal_opt g)) (juliaB (fractal_opt g))
                        else Kompleks x y)
               in iterations e g pX pY Z 0
                    (s\<lparr>cur_c := c, pCheck := replicate (length (pCheck s)) Z\<rparr>))))"

text \<open>The loop over \<open>pX\<close>; the \<open>break\<close> on \<open>cancel\<close> leaves this loop only.\<close>

function row :: "env \<Rightarrow> globals \<Rightarrow> nat \<Rightarrow> nat \<Rightarrow> render \<Rightarrow> error option \<times> render" where
  "row e g pY pX s =
     (if pX < width_px g then
        (case pixel e g pX pY s of
           (Some err, _, s1) \<Rightarrow> (Some err, s1)
         | (None, True, s1) \<Rightarrow> (None, s1)
         | (None, False, s1) \<Rightarrow> row e g pY (pX + 1) s1)
      else (None, s))"
  by pat_completeness auto
termination
  by (relation "measure (\<lambda>(e, g, pY, pX, s). width_px g - pX)") auto

text \<open>The loop over \<open>pY\<close>.\<close>

function rows :: "env \<Rightarrow> globals \<Rightarrow> nat \<Rightarrow> render \<Rightarrow> error option \<times> render" where
  "rows e g pY s =
     (if pY < height_px g then
        (case row e g pY 0 s of
           (Some err, s1) \<Rightarrow> (Some err, s1)
         | (None, s1) \<Rightarrow> rows e g (pY + 1) s1)
      else (None, s))"
  by pat_completeness auto
termination
  by (relation "measure (\<lambda>(e, g, pY, s). height_px g - pY)") auto

definition initial :: "env \<Rightarrow> globals \<Rightarrow> render" where
  "initial e g =
     \<lparr>currentPoint = 0, periodic = 0, escaped = 0, not_escaped = 0, skipped = 0, run = 0,
      max_n = 0, max_period = 0, max_period_n = 0, image = Map.empty,
      pCheck = replicate (pCheckN g) kompleks_default, cur_c = kompleks_default,
      previous_time = clock e 0, clock_reads = 1, cancel_reads = 0, progress = []\<rparr>"

text \<open>What \<open>createFractal\<close> leaves: the exception that ended it and the state then, or the
  saved image with the statistics, whether the file name is marked partial (the flag as
  \<open>make_filename\<close> reads it), and whether the message \<open>There is a bug somewhere\<close> was
  printed. The text of the file name and of the console is not modelled.\<close>

datatype outcome =
    Thrown error render
  | Saved render bool bool

definition bug_message :: "render \<Rightarrow> bool" where
  "bug_message s = (escaped s + not_escaped s + periodic s + skipped s \<noteq> currentPoint s)"

definition createFractal :: "env \<Rightarrow> globals \<Rightarrow> outcome" where
  "createFractal e g =
     (case rows e g 0 (initial e g) of
        (Some err, s) \<Rightarrow> Thrown err s
      | (None, s) \<Rightarrow>
          (let s1 = s\<lparr>clock_reads := clock_reads s + 1\<rparr>
           in Saved (after_read s1) (cancel_now e s1) (bug_message s1)))"

section \<open>The configuration in \<open>main\<close>\<close>

text \<open>The class \<open>ArgParser\<close> is declared but not defined in the sources: \<open>main\<close> is modelled
  from the point where the command line has been parsed, and takes the values that the
  calls of \<open>get_bool\<close>, \<open>get_uint\<close>, \<open>get_lfloat\<close> and \<open>get_string\<close> return.\<close>

record arguments =
  arg_df :: bool
  arg_s :: bool
  arg_S :: bool
  arg_c :: nat
  arg_cm :: ldouble
  arg_clog :: nat
  arg_e :: ldouble
  arg_el :: ldouble
  arg_i :: nat
  arg_jx :: ldouble
  arg_jy :: ldouble
  arg_pc :: nat
  arg_r :: nat
  arg_wm :: ldouble
  arg_t :: string
  arg_lbound :: ldouble
  arg_rbound :: ldouble
  arg_bbound :: ldouble
  arg_ubound :: ldouble
  arg_box :: ldouble

definition cast_uint32 :: "ldouble \<Rightarrow> error + nat" where
  "cast_uint32 x = map_sum id nat (cast_to 0 (2 ^ 32 - 1) x)"

definition configure :: "arguments \<Rightarrow> error + globals" where
  "configure a =
     (let height = arg_r a mod 2 ^ 32 in
      bind_result (cast_uint32 (ld_round (ld_of_nat height * arg_wm a))) (\<lambda>width.
      bind_result (string_to_fractal_type (arg_t a)) (\<lambda>t.
      let boxed = \<not> ld_eq (arg_box a) (Fin 2) in
      Inr \<lparr>fractal_opt =
             \<lparr>type = t, exponent = arg_e a, escape_limit = arg_el a, single = arg_S a,
              lbound = (if boxed then - arg_box a else arg_lbound a),
              rbound = (if boxed then arg_box a else arg_rbound a),
              bbound = (if boxed then - arg_box a else arg_bbound a),
              ubound = (if boxed then arg_box a else arg_ubound a),
              juliaA = arg_jx a, juliaB = arg_jy a\<rparr>,
           color_opt =
             \<lparr>method_index = arg_c a mod 2 ^ 64, smooth = arg_s a, disable_fancy = arg_df a,
              multiplier = arg_cm a, c_log = arg_clog a mod 2 ^ 32\<rparr>,
           width_px = width, height_px = height,
           max_iterations = arg_i a mod 2 ^ 64, pCheckN = arg_pc a mod 2 ^ 64\<rparr>)))"

text \<open>The run of \<open>main\<close> after parsing: it returns 1 when the name of the fractal type
  is refused (nothing has been rendered then), ends in the uncaught exception of
  \<open>createFractal\<close>, or returns 0 after the image has been saved.\<close>

datatype program_result =
    Return_1 error
  | Uncaught error render
  | Return_0 render bool bool

definition main :: "env \<Rightarrow> arguments \<Rightarrow> program_result" where
  "main e a =
     (case configure a of
        Inl err \<Rightarrow> Return_1 err
      | Inr g \<Rightarrow>
          (case createFractal e g of
             Thrown err s \<Rightarrow> Uncaught err s
           | Saved s part bug \<Rightarrow> Return_0 s part bug))"

section \<open>The loop over \<open>n\<close>, one pass at a time\<close>

text \<open>The parts of one pass of the loop over \<open>n\<close>, named so that the lemmas below can say
  which exit a pass takes: the test that ends the pixel as escaped, the state and the
  value of \<open>Z\<close> after the call of \<open>iterate\<close>, whether the window is consulted at all, the
  position \<open>std::find\<close> returns (the rest of the window from the first match on, empty
  when there is none), and the window after \<open>erase\<close> and \<open>emplace_back\<close>.\<close>

definition escape_test :: "globals \<Rightarrow> kompleks \<Rightarrow> nat \<Rightarrow> bool" where
  "escape_test g Z n =
     ((single (fractal_opt g) \<and> n = max_iterations g)
      \<or> (\<not> single (fractal_opt g) \<and> norm_k Z > escape_limit (fractal_opt g) \<and> n > 0))"

definition advanced :: "globals \<Rightarrow> kompleks \<Rightarrow> nat \<Rightarrow> render \<Rightarrow> render" where
  "advanced g Z n s =
     s\<lparr>run := u64 (run s + 1), cur_c := snd (iterate (fractal_opt g) Z (cur_c s) n)\<rparr>"

definition next_Z :: "globals \<Rightarrow> kompleks \<Rightarrow> nat \<Rightarrow> render \<Rightarrow> kompleks" where
  "next_Z g Z n s = fst (iterate (fractal_opt g) Z (cur_c s) n)"

definition checks_period :: "globals \<Rightarrow> bool" where
  "checks_period g = (\<not> single (fractal_opt g) \<and> pCheckN g > 0)"

definition window_match :: "kompleks list \<Rightarrow> kompleks \<Rightarrow> kompleks list" where
  "window_match w Z = dropWhile (\<lambda>v. \<not> kompleks_eq v Z) w"

definition slid :: "globals \<Rightarrow> kompleks \<Rightarrow> render \<Rightarrow> render" where
  "slid g Z s = (if checks_period g then s\<lparr>pCheck := tl (pCheck s) @ [Z]\<rparr> else s)"

text \<open>The three exits of a pass, as the state they leave: the pixel escaped (the
  counters are updated before \<open>colorize\<close> is called, so they are also in the state of an
  exception), the budget is exhausted, or the new \<open>Z\<close> is in the window.\<close>

definition ends_escaped :: "env \<Rightarrow> globals \<Rightarrow> nat \<Rightarrow> nat \<Rightarrow> kompleks \<Rightarrow> nat \<Rightarrow> render \<Rightarrow> error option \<times> render" where
  "ends_escaped e g pX pY Z n s =
     (case colorize (rnd e) (fractal_opt g) (color_opt g) (method_index (color_opt g))
             Z (cur_c s) n of
        Inl err \<Rightarrow>
          (Some err,
           s\<lparr>run := u64 (run s + 1), escaped := escaped s + 1,
             max_n := (if n > max_n s then n else max_n s)\<rparr>)
      | Inr px \<Rightarrow>
          (None,
           s\<lparr>run := u64 (run s + 1), escaped := escaped s + 1,
             max_n := (if n > max_n s then n else max_n s),
             image := (image s)((pX, pY) \<mapsto> px)\<rparr>))"

definition ends_bounded :: "render \<Rightarrow> error option \<times> render" where
  "ends_bounded s = (None, s\<lparr>run := u64 (run s + 1), not_escaped := not_escaped s + 1\<rparr>)"

definition ends_periodic :: "globals \<Rightarrow> kompleks \<Rightarrow> nat \<Rightarrow> render \<Rightarrow> error option \<times> render" where
  "ends_periodic g Z n s =
     (None,
      (advanced g Z n s)\<lparr>
        max_period :=
          (if length (window_match (pCheck s) (next_Z g Z n s)) > max_period s
           then length (window_match (pCheck s) (next_Z g Z n s)) else max_period s),
        max_period_n := (if n > max_period_n s then n else max_period_n s),
        periodic := periodic s + 1\<rparr>)"

text \<open>The orbit of a pixel: the values of \<open>Z\<close> and \<open>c\<close> after \<open>k\<close> calls of \<open>iterate\<close>, and the
  window after \<open>k\<close> passes that found no match.\<close>

primrec orbit :: "FractalOptions \<Rightarrow> kompleks \<Rightarrow> kompleks \<Rightarrow> nat \<Rightarrow> kompleks \<times> kompleks" where
  "orbit opt Z c 0 = (Z, c)"
| "orbit opt Z c (Suc k) = iterate opt (fst (orbit opt Z c k)) (snd (orbit opt Z c k)) k"

primrec window :: "globals \<Rightarrow> kompleks \<Rightarrow> kompleks \<Rightarrow> kompleks list \<Rightarrow> nat \<Rightarrow> kompleks list" where
  "window g Z c w 0 = w"
| "window g Z c w (Suc k) =
     (if checks_period g
      then tl (window g Z c w k) @ [fst (orbit (fractal_opt g) Z c (Suc k))]
      else window g Z c w k)"

definition escapes_at :: "globals \<Rightarrow> kompleks \<Rightarrow> kompleks \<Rightarrow> nat \<Rightarrow> bool" where
  "escapes_at g Z c n = escape_test g (fst (orbit (fractal_opt g) Z c n)) n"

definition matches_at :: "globals \<Rightarrow> kompleks \<Rightarrow> kompleks \<Rightarrow> kompleks list \<Rightarrow> nat \<Rightarrow> bool" where
  "matches_at g Z c w n =
     (checks_period g
      \<and> window_match (window g Z c w n) (fst (orbit (fractal_opt g) Z c (Suc n))) \<noteq> [])"

text \<open>The state at the head of pass \<open>n\<close>, when the passes before it took no exit.\<close>

definition arrived :: "globals \<Rightarrow> kompleks \<Rightarrow> render \<Rightarrow> nat \<Rightarrow> render" where
  "arrived g Z s n =
     s\<lparr>run := u64 (run s + n),
       cur_c := snd (orbit (fractal_opt g) Z (cur_c s) n),
       pCheck := window g Z (cur_c s) (pCheck s) n,
       cancel_reads := cancel_reads s + n\<rparr>"

text \<open>A pixel is counted once: exactly one of the four counters is one more.\<close>

definition one_more :: "render \<Rightarrow> render \<Rightarrow> bool" where
  "one_more s s' =
     ((escaped s' = escaped s + 1 \<and> not_escaped s' = not_escaped s
         \<and> periodic s' = periodic s \<and> skipped s' = skipped s)
      \<or> (escaped s' = escaped s \<and> not_escaped s' = not_escaped s + 1
         \<and> periodic s' = periodic s \<and> skipped s' = skipped s)
      \<or> (escaped s' = escaped s \<and> not_escaped s' = not_escaped s
         \<and> periodic s' = periodic s + 1 \<and> skipped s' = skipped s)
      \<or> (escaped s' = escaped s \<and> not_escaped s' = not_escaped s
         \<and> periodic s' = periodic s \<and> skipped s' = skipped s + 1))"

definition tally :: "render \<Rightarrow> nat" where
  "tally s = escaped s + not_escaped s + periodic s + skipped s"

text \<open>What a run shows of its result apart from the clock: the exception, if any, the
  pixels written, the statistics, and the two flags.\<close>

definition statistics :: "render \<Rightarrow> nat list" where
  "statistics s =
     [escaped s, not_escaped s, periodic s, skipped s, run s, max_n s, max_period s,
      max_period_n s, currentPoint s]"

fun observable :: "outcome \<Rightarrow> error option \<times> (nat \<times> nat \<rightharpoonup> rgb_pixel) \<times> nat list \<times> bool \<times> bool" where
  "observable (Thrown err s) = (Some err, image s, statistics s, False, False)"
| "observable (Saved s part bug) = (None, image s, statistics s, part, bug)"

definition with_clock :: "int \<Rightarrow> nat \<Rightarrow> (nat \<times> nat) list \<Rightarrow> render \<Rightarrow> render" where
  "with_clock a b c s = s\<lparr>previous_time := a, clock_reads := b, progress := c\<rparr>"





section \<open>Sample inputs\<close>

text \<open>The values \<open>main\<close> registers as the defaults of the command line, and an
  environment in which the clock stands still and no signal arrives.\<close>

definition default_arguments :: arguments where
  "default_arguments =
     \<lparr>arg_df = False, arg_s = False, arg_S = False, arg_c = 0, arg_cm = Fin 1,
      arg_clog = 0, arg_e = Fin 2, arg_el = Fin 4, arg_i = 1024, arg_jx = Fin (- 0.8),
      arg_jy = Fin 0.156, arg_pc = 1, arg_r = 1024, arg_wm = Fin 1,
      arg_t = ''mandelbrot'', arg_lbound = Fin (- 2), arg_rbound = Fin 2,
      arg_bbound = Fin (- 2), arg_ubound = Fin 2, arg_box = Fin 2\<rparr>"

definition default_fractal_opt :: FractalOptions where
  "default_fractal_opt =
     \<lparr>type = mandelbrot, exponent = Fin 2, escape_limit = Fin 4, single = False,
      lbound = Fin (- 2), rbound = Fin 2, bbound = Fin (- 2), ubound = Fin 2,
      juliaA = Fin (- 0.8), juliaB = Fin 0.156\<rparr>"

definition default_color_opt :: ColorOptions where
  "default_color_opt =
     \<lparr>method_index = 0, smooth = False, disable_fancy = False, multiplier = Fin 1,
      c_log = 0\<rparr>"

definition quiet_env :: env where
  "quiet_env = \<lparr>rnd = (\<lambda>seed k. 0), clock = (\<lambda>k. 0), sigint = None\<rparr>"

text \<open>Two pixels in one row, with the default options: the points \<open>(-1, 0)\<close>, which the
  shortcut takes, and \<open>(1, 0)\<close>, whose orbit 0, 1, 2, 5 leaves the escape limit at \<open>n = 3\<close>.\<close>

definition two_pixels :: globals where
  "two_pixels =
     \<lparr>fractal_opt = default_fractal_opt, color_opt = default_color_opt, width_px = 2,
      height_px = 1, max_iterations = 1024, pCheckN = 1\<rparr>"

text \<open>One pixel of a Julia set at the point \<open>(3, 0)\<close>, with the constant \<open>(-6, 0)\<close>: the
  point is a fixed point of \<open>Z^2 + c\<close> outside the escape limit 4.\<close>

definition julia_fixed :: globals where
  "julia_fixed =
     \<lparr>fractal_opt =
        default_fractal_opt\<lparr>type := julia, juliaA := Fin (- 6), juliaB := Fin 0,
          lbound := Fin 2, rbound := Fin 4\<rparr>,
      color_opt = default_color_opt, width_px = 1, height_px = 1, max_iterations = 1024,
      pCheckN = 1\<rparr>"

text \<open>One pixel at the point \<open>(0, 0)\<close> of the Mandelbrot set, with the escape limit 16, for
  which the shortcut is off.\<close>

definition origin_pixel :: globals where
  "origin_pixel =
     \<lparr>fractal_opt = default_fractal_opt\<lparr>escape_limit := Fin 16\<rparr>,
      color_opt = default_color_opt, width_px = 1, height_px = 1, max_iterations = 1024,
      pCheckN = 1\<rparr>"

text \<open>Four pixels in two rows, all taken by the shortcut: the points \<open>(-1, 0.125)\<close>,
  \<open>(0, 0.125)\<close>, \<open>(-1, -0.125)\<close> and \<open>(0, -0.125)\<close>.\<close>

definition four_skipped :: globals where
  "four_skipped =
     \<lparr>fractal_opt =
        default_fractal_opt\<lparr>lbound := Fin (- 1.5), rbound := Fin 0.5,
          bbound := Fin (- 0.25), ubound := Fin 0.25\<rparr>,
      color_opt = default_color_opt, width_px = 2, height_px = 2, max_iterations = 1024,
      pCheckN = 1\<rparr>"

text \<open>An environment whose clock advances by two seconds at every reading and whose
  generator is not constant.\<close>

definition busy_env :: env where
  "busy_env = \<lparr>rnd = (\<lambda>seed k. seed + k), clock = (\<lambda>k. 2000000000 * int k), sigint = None\<rparr>"

text \<open>One pixel at the point \<open>(1, 1)\<close>, with the default options.\<close>

definition one_one :: globals where
  "one_one =
     \<lparr>fractal_opt = default_fractal_opt\<lparr>lbound := Fin 0, bbound := Fin 0\<rparr>,
      color_opt = default_color_opt, width_px = 1, height_px = 1, max_iterations = 1024,
      pCheckN = 1\<rparr>"

section \<open>Arithmetic on finite values\<close>

declare iterations.simps [simp del]
declare row.simps [simp del]
declare rows.simps [simp del]
declare colorize.simps [simp del]
declare hue_up.simps [simp del]
declare hue_down.simps [simp del]

lemma ld_plus_Fin [simp]: "Fin a + Fin b = Fin (a + b)"
  by (simp add: plus_ldouble_def)

lemma ld_minus_Fin [simp]: "Fin a - Fin b = Fin (a - b)"
  by (simp add: minus_ldouble_def)

lemma ld_uminus_Fin [simp]: "- Fin a = Fin (- a)"
  by (simp add: uminus_ldouble_def)

lemma ld_times_Fin [simp]: "Fin a * Fin b = Fin (a * b)"
  by (simp add: times_ldouble_def)

lemma ld_divide_Fin [simp]: "b \<noteq> 0 \<Longrightarrow> Fin a / Fin b = Fin (a / b)"
  by (simp add: divide_ldouble_def)

lemma ld_less_Fin [simp]: "(Fin a < Fin b) = (a < b)"
  by (simp add: less_ldouble_def)

lemma ld_eq_Fin [simp]: "ld_eq (Fin a) (Fin b) = (a = b)"
  by (simp add: ld_eq_def)

lemma ld_le_Fin [simp]: "(Fin a \<le> Fin b) = (a \<le> b)"
  by (auto simp add: less_eq_ldouble_def)

text \<open>On finite components the polar form of the power with exponent 2 is the square.\<close>

lemma pow_k_2:
  "pow_k (Kompleks (Fin a) (Fin b)) (Fin 2) = Kompleks (Fin (a * a - b * b)) (Fin (2 * a * b))"
proof -
  define z where "z = Complex a b"
  define r where "r = cmod z"
  define t where "t = Arg z"
  have z: "z = rcis r t"
    by (simp add: r_def t_def rcis_cmod_Arg)
  have "z * z = rcis (r * r) (t + t)"
    by (simp add: z rcis_mult)
  then have re: "r * r * cos (2 * t) = a * a - b * b"
    and im: "r * r * sin (2 * t) = 2 * a * b"
    by (simp_all add: z_def complex_eq_iff)
  have nonneg: "\<not> a * a + b * b < 0"
    by (simp add: not_less)
  have abs: "abs_k (Kompleks (Fin a) (Fin b)) = Fin r"
    by (simp add: abs_k_def norm_k_def r_def z_def cmod_def power2_eq_square nonneg)
  have pw: "ld_pow (Fin r) (Fin 2) = Fin (r * r)"
    by (cases "r = 0") (simp_all add: r_def power2_eq_square)
  have arg: "arg_k (Kompleks (Fin a) (Fin b)) = Fin t"
    by (simp add: arg_k_def t_def z_def)
  have "pow_k (Kompleks (Fin a) (Fin b)) (Fin 2)
          = Kompleks (Fin (r * r) * ld_cos (Fin (2 * t))) (Fin (r * r) * ld_sin (Fin (2 * t)))"
    unfolding pow_k_def abs pw arg by (simp add: Let_def)
  then show ?thesis
    by (simp add: re im)
qed

lemma plus_Kompleks [simp]: "Kompleks a b + Kompleks c d = Kompleks (a + c) (b + d)"
  by (simp add: plus_kompleks_def)

lemma kompleks_eq_Fin [simp]:
  "kompleks_eq (Kompleks (Fin a) (Fin b)) (Kompleks (Fin c) (Fin d)) = (a = c \<and> b = d)"
  by (simp add: kompleks_eq_def)

lemma norm_k_Fin [simp]: "norm_k (Kompleks (Fin a) (Fin b)) = Fin (a * a + b * b)"
  by (simp add: norm_k_def)

section \<open>Evaluating sample runs\<close>

lemma two_pixels_fields [simp]:
  "fractal_opt two_pixels = default_fractal_opt" "color_opt two_pixels = default_color_opt"
  "width_px two_pixels = 2" "height_px two_pixels = 1" "max_iterations two_pixels = 1024"
  "pCheckN two_pixels = 1"
  by (simp_all add: two_pixels_def)

lemma default_fractal_opt_fields [simp]:
  "type default_fractal_opt = mandelbrot" "exponent default_fractal_opt = Fin 2"
  "escape_limit default_fractal_opt = Fin 4" "single default_fractal_opt = False"
  "lbound default_fractal_opt = Fin (- 2)" "rbound default_fractal_opt = Fin 2"
  "bbound default_fractal_opt = Fin (- 2)" "ubound default_fractal_opt = Fin 2"
  "juliaA default_fractal_opt = Fin (- 0.8)" "juliaB default_fractal_opt = Fin 0.156"
  by (simp_all add: default_fractal_opt_def)

lemma default_color_opt_fields [simp]:
  "method_index default_color_opt = 0" "smooth default_color_opt = False"
  "disable_fancy default_color_opt = False"
  "multiplier default_color_opt = Fin 1" "c_log default_color_opt = 0"
  by (simp_all add: default_color_opt_def)

lemma quiet_env_fields [simp]:
  "sigint quiet_env = None" "clock quiet_env k = 0" "rnd quiet_env seed k = 0"
  by (simp_all add: quiet_env_def)

lemmas render_defs =
  pixel_def end_of_pixel_def report_progress_def initial_def kompleks_default_def
  point_x_def point_y_def xinterval_def yinterval_def ld_of_nat_def can_skip_def
  iterations.simps row.simps rows.simps createFractal_def Let_def iterate_def pow_k_2
  cancel_now_def after_read_def u64_def bug_message_def totalPoints_def

lemmas colorize_defs =
  colorize.simps channels_def channels_0_def finish_def bind_result_def to_channel_def
  clamp_def apply_multiplier_def shl64_def shr64_def cast_uint8_def cast_to_def
  trunc_to_zero_def round_half_away_def

lemma two_pixels_run:
  "createFractal quiet_env two_pixels =
     Saved
       \<lparr>currentPoint = 2, periodic = 0, escaped = 1, not_escaped = 0, skipped = 1, run = 4,
        max_n = 3, max_period = 0, max_period_n = 0,
        image = [(1, 0) \<mapsto> \<lparr>red = 6, green = 3, blue = 1\<rparr>],
        pCheck = [Kompleks (Fin 5) (Fin 0)], cur_c = Kompleks (Fin 1) (Fin 0),
        previous_time = 0, clock_reads = 4, cancel_reads = 6, progress = []\<rparr>
       False False"
  by (simp add: render_defs colorize_defs)

section \<open>The recurrence of the variants clouds and oops\<close>

text \<open>
  Claim C9. For the variants \<open>clouds\<close> and \<open>oops\<close>, one call of \<open>iterate\<close> returns
  \<open>swap(Z)^e + c\<close>, computed with the value of \<open>c\<close> at the call, and leaves \<open>c\<close> equal to the
  \<open>Z\<close> it was called with, for every \<open>Z\<close>, \<open>c\<close> and \<open>n\<close>. The call has no other result: \<open>Z\<close> is
  passed by value and the options are only read.
\<close>

theorem iterate_clouds_oops:
  assumes "type opt = clouds \<or> type opt = oops_type"
  shows "iterate opt Z c n = (pow_k (swap_xy Z) (exponent opt) + c, Z)"
  using assms by (auto simp add: iterate_def Let_def)

theorem iterate_clouds_oops_witness:
  "(type (default_fractal_opt\<lparr>type := oops_type\<rparr>) = clouds
      \<or> type (default_fractal_opt\<lparr>type := oops_type\<rparr>) = oops_type)
   \<and> iterate (default_fractal_opt\<lparr>type := oops_type\<rparr>)
        (Kompleks (Fin 1) (Fin 2)) (Kompleks (Fin 3) (Fin 5)) 7
      = (Kompleks (Fin 6) (Fin 9), Kompleks (Fin 1) (Fin 2))"
  using iterate_clouds_oops [of "default_fractal_opt\<lparr>type := oops_type\<rparr>"
      "Kompleks (Fin 1) (Fin 2)" "Kompleks (Fin 3) (Fin 5)" 7]
  by (simp add: default_fractal_opt_def swap_xy_def pow_k_2)

section \<open>One pass of the loop over \<open>n\<close>\<close>

lemma iterations_escape:
  assumes "n \<le> max_iterations g" and "escape_test g Z n"
  shows "iterations e g pX pY Z n s = ends_escaped e g pX pY Z n s"
  using assms unfolding escape_test_def ends_escaped_def
  by (subst iterations.simps) (auto simp add: Let_def split: sum.splits)

lemma iterations_bounded:
  assumes "n = max_iterations g" and "\<not> escape_test g Z n"
  shows "iterations e g pX pY Z n s = ends_bounded s"
  using assms unfolding escape_test_def ends_bounded_def
  by (subst iterations.simps) (auto simp add: Let_def split: sum.splits)

lemma iterations_periodic:
  assumes "n < max_iterations g" and "\<not> escape_test g Z n" and "checks_period g"
    and "window_match (pCheck s) (next_Z g Z n s) \<noteq> []"
  shows "iterations e g pX pY Z n s = ends_periodic g Z n s"
  using assms
  unfolding escape_test_def checks_period_def window_match_def next_Z_def advanced_def
    ends_periodic_def
  by (subst iterations.simps) (auto simp add: Let_def split: sum.splits)

lemma iterations_step:
  assumes "n < max_iterations g" and "\<not> escape_test g Z n"
    and "checks_period g \<longrightarrow> window_match (pCheck s) (next_Z g Z n s) = []"
  shows "iterations e g pX pY Z n s =
     (if cancel_now e (slid g (next_Z g Z n s) (advanced g Z n s))
      then (None, after_read (slid g (next_Z g Z n s) (advanced g Z n s)))
      else iterations e g pX pY (next_Z g Z n s) (n + 1)
             (after_read (slid g (next_Z g Z n s) (advanced g Z n s))))"
  using assms unfolding escape_test_def checks_period_def window_match_def next_Z_def advanced_def slid_def
  by (subst iterations.simps) (auto simp add: Let_def split: sum.splits)

lemma cancel_now_quiet [simp]: "sigint e = None \<Longrightarrow> cancel_now e s = False"
  by (simp add: cancel_now_def)

section \<open>Every pixel is counted once\<close>

lemma step_counters [simp]:
  "escaped (after_read (slid g Z' (advanced g Z n s))) = escaped s"
  "not_escaped (after_read (slid g Z' (advanced g Z n s))) = not_escaped s"
  "periodic (after_read (slid g Z' (advanced g Z n s))) = periodic s"
  "skipped (after_read (slid g Z' (advanced g Z n s))) = skipped s"
  "currentPoint (after_read (slid g Z' (advanced g Z n s))) = currentPoint s"
  by (simp_all add: after_read_def slid_def advanced_def)

lemma one_more_step [simp]:
  "one_more (after_read (slid g Z' (advanced g Z n s))) s' = one_more s s'"
  by (simp add: one_more_def)

lemma escape_one_more:
  assumes "n \<le> max_iterations g" and "escape_test g Z n"
    and "iterations e g pX pY Z n s = (None, s')"
  shows "one_more s s' \<and> currentPoint s' = currentPoint s"
  using assms(3) unfolding iterations_escape [OF assms(1,2)] ends_escaped_def
  by (auto simp add: one_more_def split: sum.splits)

lemma iterations_one_more:
  assumes q: "sigint e = None"
  shows "n \<le> max_iterations g \<Longrightarrow> iterations e g pX pY Z n s = (None, s')
    \<Longrightarrow> one_more s s' \<and> currentPoint s' = currentPoint s"
proof (induction "max_iterations g - n" arbitrary: n Z s)
  case 0
  then have n: "n = max_iterations g" by simp
  show ?case
  proof (cases "escape_test g Z n")
    case True
    from escape_one_more [OF "0.prems"(1) True "0.prems"(2)] show ?thesis .
  next
    case False
    from "0.prems"(2) show ?thesis
      unfolding iterations_bounded [OF n False] ends_bounded_def
      by (auto simp add: one_more_def)
  qed
next
  case (Suc k)
  then have n: "n < max_iterations g" by simp
  show ?case
  proof (cases "escape_test g Z n")
    case True
    from escape_one_more [OF Suc.prems(1) True Suc.prems(2)] show ?thesis .
  next
    case False
    show ?thesis
    proof (cases "checks_period g \<and> window_match (pCheck s) (next_Z g Z n s) \<noteq> []")
      case True
      then have c: "checks_period g" and w: "window_match (pCheck s) (next_Z g Z n s) \<noteq> []"
        by simp_all
      from Suc.prems(2) show ?thesis
        unfolding iterations_periodic [OF n False c w] ends_periodic_def
        by (auto simp add: one_more_def advanced_def)
    next
      case hit: False
      then have "checks_period g \<longrightarrow> window_match (pCheck s) (next_Z g Z n s) = []"
        by simp
      from iterations_step [OF n False this, of e pX pY] Suc.prems(2) q
      have "iterations e g pX pY (next_Z g Z n s) (n + 1)
              (after_read (slid g (next_Z g Z n s) (advanced g Z n s))) = (None, s')"
        by simp
      moreover from Suc.hyps(2) n have "k = max_iterations g - (n + 1)" by simp
      moreover from n have "n + 1 \<le> max_iterations g" by simp
      ultimately have "one_more (after_read (slid g (next_Z g Z n s) (advanced g Z n s))) s'
        \<and> currentPoint s' = currentPoint (after_read (slid g (next_Z g Z n s) (advanced g Z n s)))"
        using Suc.hyps(1) by blast
      then show ?thesis by simp
    qed
  qed
qed

lemma report_progress_fields [simp]:
  "escaped (report_progress e g s) = escaped s"
  "not_escaped (report_progress e g s) = not_escaped s"
  "periodic (report_progress e g s) = periodic s"
  "skipped (report_progress e g s) = skipped s"
  "currentPoint (report_progress e g s) = currentPoint s"
  "pCheck (report_progress e g s) = pCheck s"
  "cancel_reads (report_progress e g s) = cancel_reads s"
  by (simp_all add: report_progress_def Let_def)

lemma end_of_pixel_quiet:
  assumes "sigint e = None"
  shows "end_of_pixel e (None, s) = (None, False, (after_read s)\<lparr>currentPoint := currentPoint s + 1\<rparr>)"
  using assms by (simp add: end_of_pixel_def)

lemma end_of_pixel_thrown: "end_of_pixel e (Some err, s) = (Some err, False, s)"
  by (simp add: end_of_pixel_def)

lemma one_more_after [simp]:
  "one_more s ((after_read s')\<lparr>currentPoint := k\<rparr>) = one_more s s'"
  by (simp add: one_more_def after_read_def)

lemma pixel_skipped:
  assumes "can_skip (fractal_opt g) (point_x g pX) (point_y g pY)"
  shows "pixel e g pX pY s =
     end_of_pixel e (None, (report_progress e g s)\<lparr>skipped := skipped s + 1\<rparr>)"
  using assms by (simp add: pixel_def Let_def)

lemma pixel_one_more:
  assumes "sigint e = None" and "pixel e g pX pY s = (None, b, s')"
  shows "b = False \<and> one_more s s' \<and> currentPoint s' = currentPoint s + 1"
proof (cases "can_skip (fractal_opt g) (point_x g pX) (point_y g pY)")
  case True
  from assms(2) show ?thesis
    unfolding pixel_skipped [OF True] end_of_pixel_quiet [OF assms(1)]
    by (auto simp add: one_more_def after_read_def)
next
  case False
  define Z where "Z = (if type (fractal_opt g) \<noteq> clouds \<and> type (fractal_opt g) \<noteq> mandelbrot
                        then Kompleks (point_x g pX) (point_y g pY) else kompleks_default)"
  define s1 where "s1 = (report_progress e g s)\<lparr>cur_c := (if type (fractal_opt g) = julia
                        then Kompleks (juliaA (fractal_opt g)) (juliaB (fractal_opt g))
                        else Kompleks (point_x g pX) (point_y g pY)),
                      pCheck := replicate (length (pCheck (report_progress e g s))) Z\<rparr>"
  obtain r s2 where it: "iterations e g pX pY Z 0 s1 = (r, s2)"
    by (cases "iterations e g pX pY Z 0 s1") auto
  from False have "pixel e g pX pY s = end_of_pixel e (iterations e g pX pY Z 0 s1)"
    unfolding pixel_def Let_def Z_def s1_def by simp
  with assms(2) it have px: "end_of_pixel e (r, s2) = (None, b, s')"
    by simp
  then have r: "r = None"
    by (cases r) (simp_all add: end_of_pixel_thrown)
  from iterations_one_more [OF assms(1) _ it [unfolded r]]
  have "one_more s1 s2" "currentPoint s2 = currentPoint s1" by simp_all
  moreover have "one_more s1 s2 = one_more s s2" "currentPoint s1 = currentPoint s"
    by (simp_all add: one_more_def s1_def)
  moreover from px r have "b = False" "s' = (after_read s2)\<lparr>currentPoint := currentPoint s2 + 1\<rparr>"
    by (simp_all add: end_of_pixel_quiet [OF assms(1)])
  ultimately show ?thesis
    by simp
qed

lemma one_more_tally: "one_more s s' \<Longrightarrow> tally s' = tally s + 1"
  by (auto simp add: one_more_def tally_def)

lemma row_tally:
  assumes q: "sigint e = None"
  shows "row e g pY pX s = (None, s') \<Longrightarrow>
    tally s' = tally s + (width_px g - pX) \<and> currentPoint s' = currentPoint s + (width_px g - pX)"
proof (induction "width_px g - pX" arbitrary: pX s)
  case 0
  then show ?case by (simp add: row.simps)
next
  case (Suc k)
  then have lt: "pX < width_px g" by simp
  obtain r b s1 where px: "pixel e g pX pY s = (r, b, s1)"
    by (cases "pixel e g pX pY s") auto
  with lt Suc.prems have r: "r = None"
    by (cases r) (simp_all add: row.simps)
  from pixel_one_more [OF q px [unfolded r]]
  have b: "b = False" and om: "one_more s s1" and cp: "currentPoint s1 = currentPoint s + 1"
    by simp_all
  from lt Suc.prems px r b have rest: "row e g pY (pX + 1) s1 = (None, s')"
    by (simp add: row.simps)
  from Suc.hyps(2) have "k = width_px g - (pX + 1)" by simp
  from Suc.hyps(1) [OF this rest] one_more_tally [OF om] cp lt show ?case
    by auto
qed

lemma rows_tally:
  assumes q: "sigint e = None"
  shows "rows e g pY s = (None, s') \<Longrightarrow>
    tally s' = tally s + width_px g * (height_px g - pY)
    \<and> currentPoint s' = currentPoint s + width_px g * (height_px g - pY)"
proof (induction "height_px g - pY" arbitrary: pY s)
  case 0
  then show ?case by (simp add: rows.simps)
next
  case (Suc k)
  then have lt: "pY < height_px g" by simp
  obtain r s1 where rw: "row e g pY 0 s = (r, s1)"
    by (cases "row e g pY 0 s") auto
  with lt Suc.prems have r: "r = None"
    by (cases r) (simp_all add: rows.simps)
  from row_tally [OF q rw [unfolded r]]
  have t: "tally s1 = tally s + width_px g" and cp: "currentPoint s1 = currentPoint s + width_px g"
    by simp_all
  from lt Suc.prems rw r have rest: "rows e g (pY + 1) s1 = (None, s')"
    by (simp add: rows.simps)
  from Suc.hyps(2) have k: "k = height_px g - (pY + 1)" by simp
  have "width_px g + width_px g * (height_px g - (pY + 1)) = width_px g * (height_px g - pY)"
    using lt by (metis Suc.hyps(2) k mult_Suc_right)
  with Suc.hyps(1) [OF k rest] t cp show ?case
    by simp
qed

text \<open>
  Claim C3. When no signal arrives and the render runs to its end (the image is saved),
  the four counters add up to \<open>width_px * height_px\<close>, which is also the final
  \<open>currentPoint\<close>; the file is not marked partial and the message about a bug is not
  printed; and every pixel whose processing ends without an exception has been counted
  in exactly one of the four counters.
\<close>

theorem outcome_counts:
  assumes "sigint e = None" and "createFractal e g = Saved s part bug"
  shows "escaped s + not_escaped s + periodic s + skipped s = width_px g * height_px g
    \<and> currentPoint s = width_px g * height_px g \<and> \<not> part \<and> \<not> bug
    \<and> (\<forall>pX pY s0 b s1. pixel e g pX pY s0 = (None, b, s1) \<longrightarrow> one_more s0 s1)"
proof -
  obtain r s1 where rs: "rows e g 0 (initial e g) = (r, s1)"
    by (cases "rows e g 0 (initial e g)") auto
  with assms(2) have r: "r = None"
    by (cases r) (simp_all add: createFractal_def)
  from rows_tally [OF assms(1) rs [unfolded r]]
  have t: "tally s1 = width_px g * height_px g" and cp: "currentPoint s1 = width_px g * height_px g"
    by (simp_all add: tally_def initial_def)
  from assms rs r have s: "s = after_read (s1\<lparr>clock_reads := clock_reads s1 + 1\<rparr>)"
    and "\<not> part" and bug: "bug = bug_message (s1\<lparr>clock_reads := clock_reads s1 + 1\<rparr>)"
    by (simp_all add: createFractal_def Let_def)
  with t cp pixel_one_more [OF assms(1)] show ?thesis
    by (auto simp add: tally_def after_read_def bug_message_def)
qed

theorem outcome_counts_witness:
  "sigint quiet_env = None
   \<and> (case createFractal quiet_env two_pixels of
        Saved s part bug \<Rightarrow>
          escaped s = 1 \<and> not_escaped s = 0 \<and> periodic s = 0 \<and> skipped s = 1
          \<and> escaped s + not_escaped s + periodic s + skipped s
              = width_px two_pixels * height_px two_pixels
          \<and> currentPoint s = width_px two_pixels * height_px two_pixels
          \<and> \<not> part \<and> \<not> bug
      | Thrown err s \<Rightarrow> False)"
  using outcome_counts [OF _ two_pixels_run] by (simp add: two_pixels_run)

section \<open>The order of the tests in the loop over \<open>n\<close>\<close>

lemma u64_u64 [simp]: "u64 (u64 a + b) = u64 (a + b)"
  by (simp add: u64_def mod_add_left_eq)

lemma u64_Suc [simp]: "u64 (Suc (u64 a)) = u64 (Suc a)"
  by (simp add: u64_def mod_Suc_eq)

lemma u64_small: "a < 2 ^ 64 \<Longrightarrow> u64 a = a"
  by (simp add: u64_def)

lemma arrived_0: "run s < 2 ^ 64 \<Longrightarrow> arrived g Z s 0 = s"
  by (simp add: arrived_def u64_small)

lemma arrived_Suc:
  "after_read (slid g (fst (orbit (fractal_opt g) Z (cur_c s) (Suc n)))
      (advanced g (fst (orbit (fractal_opt g) Z (cur_c s) n)) n (arrived g Z s n)))
   = arrived g Z s (Suc n)"
  by (simp add: arrived_def after_read_def slid_def advanced_def)

lemma next_Z_arrived:
  "next_Z g (fst (orbit (fractal_opt g) Z (cur_c s) n)) n (arrived g Z s n)
   = fst (orbit (fractal_opt g) Z (cur_c s) (Suc n))"
  by (simp add: next_Z_def arrived_def)

lemma iterations_run:
  assumes q: "sigint e = None" and r: "run s < 2 ^ 64"
  shows "n \<le> max_iterations g
    \<Longrightarrow> \<forall>k<n. \<not> escapes_at g Z (cur_c s) k \<and> \<not> matches_at g Z (cur_c s) (pCheck s) k
    \<Longrightarrow> iterations e g pX pY Z 0 s
        = iterations e g pX pY (fst (orbit (fractal_opt g) Z (cur_c s) n)) n (arrived g Z s n)"
proof (induction n)
  case 0
  show ?case by (simp add: arrived_0 [OF r])
next
  case (Suc n)
  let ?Zn = "fst (orbit (fractal_opt g) Z (cur_c s) n)"
  from Suc.prems have n: "n < max_iterations g" by simp
  from Suc.prems have ne: "\<not> escape_test g ?Zn n"
    by (simp add: escapes_at_def)
  from Suc.prems have "\<not> matches_at g Z (cur_c s) (pCheck s) n" by simp
  then have nm: "checks_period g \<longrightarrow>
      window_match (pCheck (arrived g Z s n)) (next_Z g ?Zn n (arrived g Z s n)) = []"
    by (simp add: matches_at_def next_Z_arrived) (simp add: arrived_def)
  from Suc.prems n have "iterations e g pX pY Z 0 s = iterations e g pX pY ?Zn n (arrived g Z s n)"
    using Suc.IH by simp
  also have "\<dots> = iterations e g pX pY (fst (orbit (fractal_opt g) Z (cur_c s) (Suc n))) (Suc n)
                    (arrived g Z s (Suc n))"
    unfolding iterations_step [OF n ne nm] next_Z_arrived arrived_Suc using q by simp
  finally show ?case .
qed


text \<open>
  Claim C2, as amended. In normal mode, with no signal, let pass \<open>n\<close> of the loop be
  reached without an earlier exit: no \<open>k < n\<close> has \<open>k > 0\<close> with the squared modulus of
  \<open>Z\<^sub>k\<close> above the escape limit, and at no \<open>k < n\<close> was \<open>Z\<^sub>k\<^sub>+\<^sub>1\<close> found in the window. Then
  the pass ends the pixel as escaped when \<open>n > 0\<close> and the squared modulus of \<open>Z\<^sub>n\<close> exceeds
  the limit, tested on \<open>Z\<^sub>n\<close> before \<open>iterate\<close> is called for this \<open>n\<close>; otherwise as not
  escaped when \<open>n = max_iterations\<close>; otherwise, after \<open>iterate\<close> has produced \<open>Z\<^sub>n\<^sub>+\<^sub>1\<close>, as
  periodic when \<open>Z\<^sub>n\<^sub>+\<^sub>1\<close> is in the window. The claim as stated leaves out the condition on
  the earlier matches for the escape: the pixel evaluated after the theorem ends
  periodic in pass 0 although \<open>n = 1\<close> is the smallest \<open>n > 0\<close> whose \<open>Z\<^sub>n\<close> is outside
  the limit.
\<close>

theorem classifier_order:
  assumes "sigint e = None" and "\<not> single (fractal_opt g)" and "run s < 2 ^ 64"
    and "n \<le> max_iterations g"
    and "\<forall>k<n. \<not> (0 < k \<and> norm_k (fst (orbit (fractal_opt g) Z (cur_c s) k))
                          > escape_limit (fractal_opt g))
                \<and> \<not> matches_at g Z (cur_c s) (pCheck s) k"
  shows "(0 < n \<and> norm_k (fst (orbit (fractal_opt g) Z (cur_c s) n)) > escape_limit (fractal_opt g)
           \<longrightarrow> iterations e g pX pY Z 0 s
               = ends_escaped e g pX pY (fst (orbit (fractal_opt g) Z (cur_c s) n)) n
                   (arrived g Z s n))
    \<and> (\<not> (0 < n \<and> norm_k (fst (orbit (fractal_opt g) Z (cur_c s) n))
                     > escape_limit (fractal_opt g))
         \<and> n = max_iterations g
           \<longrightarrow> iterations e g pX pY Z 0 s = ends_bounded (arrived g Z s n))
    \<and> (\<not> (0 < n \<and> norm_k (fst (orbit (fractal_opt g) Z (cur_c s) n))
                     > escape_limit (fractal_opt g))
         \<and> n < max_iterations g \<and> matches_at g Z (cur_c s) (pCheck s) n
           \<longrightarrow> iterations e g pX pY Z 0 s
               = ends_periodic g (fst (orbit (fractal_opt g) Z (cur_c s) n)) n
                   (arrived g Z s n))"
proof -
  let ?Zn = "fst (orbit (fractal_opt g) Z (cur_c s) n)"
  have esc: "escapes_at g Z (cur_c s) k
      = (0 < k \<and> norm_k (fst (orbit (fractal_opt g) Z (cur_c s) k)) > escape_limit (fractal_opt g))"
    for k
    using assms(2) by (auto simp add: escapes_at_def escape_test_def)
  from assms(5) have "\<forall>k<n. \<not> escapes_at g Z (cur_c s) k \<and> \<not> matches_at g Z (cur_c s) (pCheck s) k"
    by (simp add: esc)
  from iterations_run [OF assms(1,3,4) this]
  have run: "iterations e g pX pY Z 0 s = iterations e g pX pY ?Zn n (arrived g Z s n)" .
  have et: "escape_test g ?Zn n = (0 < n \<and> norm_k ?Zn > escape_limit (fractal_opt g))"
    using esc [of n] by (simp add: escapes_at_def)
  have m: "matches_at g Z (cur_c s) (pCheck s) n
      \<Longrightarrow> checks_period g
          \<and> window_match (pCheck (arrived g Z s n)) (next_Z g ?Zn n (arrived g Z s n)) \<noteq> []"
    by (simp add: matches_at_def next_Z_arrived) (simp add: arrived_def)
  show ?thesis
    unfolding run
    using iterations_escape [OF assms(4), of ?Zn e pX pY "arrived g Z s n"]
      iterations_bounded [of n g ?Zn e pX pY "arrived g Z s n"]
      iterations_periodic [of n g ?Zn "arrived g Z s n" e pX pY]
      et m
    by blast
qed


lemma numeral_3_eq: "(3::nat) = Suc (Suc (Suc 0))"
  by simp

theorem classifier_order_witness:
  "iterations quiet_env two_pixels 1 0 (Kompleks (Fin 0) (Fin 0)) 0
     ((initial quiet_env two_pixels)\<lparr>cur_c := Kompleks (Fin 1) (Fin 0)\<rparr>)
   = (None,
      (initial quiet_env two_pixels)\<lparr>run := 4, escaped := 1, max_n := 3,
        image := [(1, 0) \<mapsto> \<lparr>red = 6, green = 3, blue = 1\<rparr>],
        pCheck := [Kompleks (Fin 5) (Fin 0)], cur_c := Kompleks (Fin 1) (Fin 0),
        cancel_reads := 3\<rparr>)"
proof -
  let ?s = "(initial quiet_env two_pixels)\<lparr>cur_c := Kompleks (Fin 1) (Fin 0)\<rparr>"
  let ?Z = "Kompleks (Fin 0) (Fin 0)"
  have h1: "sigint quiet_env = None" by simp
  have h2: "\<not> single (fractal_opt two_pixels)" by simp
  have h3: "run ?s < 2 ^ 64" by (simp add: initial_def)
  have h4: "(3::nat) \<le> max_iterations two_pixels" by simp
  have h5: "\<forall>k<3. \<not> (0 < k \<and> norm_k (fst (orbit (fractal_opt two_pixels) ?Z (cur_c ?s) k))
                          > escape_limit (fractal_opt two_pixels))
                \<and> \<not> matches_at two_pixels ?Z (cur_c ?s) (pCheck ?s) k"
    unfolding numeral_3_eq
    by (simp add: All_less_Suc iterate_def pow_k_2 matches_at_def window_match_def
        checks_period_def initial_def kompleks_default_def)
  have esc: "0 < (3::nat) \<and> norm_k (fst (orbit (fractal_opt two_pixels) ?Z (cur_c ?s) 3))
                > escape_limit (fractal_opt two_pixels)"
    unfolding numeral_3_eq by (simp add: iterate_def pow_k_2)
  from classifier_order [OF h1 h2 h3 h4 h5, of 1 0] esc
  have "iterations quiet_env two_pixels 1 0 ?Z 0 ?s
      = ends_escaped quiet_env two_pixels 1 0
          (fst (orbit (fractal_opt two_pixels) ?Z (cur_c ?s) 3)) 3 (arrived two_pixels ?Z ?s 3)"
    by blast
  then show ?thesis
    unfolding numeral_3_eq
    by (simp add: iterate_def pow_k_2 ends_escaped_def arrived_def checks_period_def initial_def
        kompleks_default_def u64_def ld_of_nat_def colorize_defs)
qed


lemma julia_fixed_fields [simp]:
  "fractal_opt julia_fixed =
     default_fractal_opt\<lparr>type := julia, juliaA := Fin (- 6), juliaB := Fin 0,
       lbound := Fin 2, rbound := Fin 4\<rparr>"
  "color_opt julia_fixed = default_color_opt"
  "width_px julia_fixed = 1" "height_px julia_fixed = 1" "max_iterations julia_fixed = 1024"
  "pCheckN julia_fixed = 1"
  by (simp_all add: julia_fixed_def)

lemma origin_pixel_fields [simp]:
  "fractal_opt origin_pixel = default_fractal_opt\<lparr>escape_limit := Fin 16\<rparr>"
  "color_opt origin_pixel = default_color_opt"
  "width_px origin_pixel = 1" "height_px origin_pixel = 1" "max_iterations origin_pixel = 1024"
  "pCheckN origin_pixel = 1"
  by (simp_all add: origin_pixel_def)

text \<open>The Julia set with constant \<open>(-6, 0)\<close> at the pixel \<open>(3, 0)\<close>: \<open>Z\<^sub>0 = Z\<^sub>1 = (3, 0)\<close>, of
  squared modulus 9, above the limit 4. Pass 0 does not test the escape (\<open>n > 0\<close> fails),
  advances, and finds \<open>Z\<^sub>1\<close> in the window: the pixel is counted as periodic, not as
  escaped.\<close>

theorem escape_preempted_by_period:
  "\<not> single (fractal_opt julia_fixed)
   \<and> point_x julia_fixed 0 = Fin 3 \<and> point_y julia_fixed 0 = Fin 0
   \<and> \<not> can_skip (fractal_opt julia_fixed) (Fin 3) (Fin 0)
   \<and> \<not> escapes_at julia_fixed (Kompleks (Fin 3) (Fin 0)) (Kompleks (Fin (- 6)) (Fin 0)) 0
   \<and> norm_k (fst (orbit (fractal_opt julia_fixed) (Kompleks (Fin 3) (Fin 0))
                  (Kompleks (Fin (- 6)) (Fin 0)) 1))
       > escape_limit (fractal_opt julia_fixed)
   \<and> createFractal quiet_env julia_fixed =
       Saved
         \<lparr>currentPoint = 1, periodic = 1, escaped = 0, not_escaped = 0, skipped = 0,
          run = 1, max_n = 0, max_period = 1, max_period_n = 0, image = Map.empty,
          pCheck = [Kompleks (Fin 3) (Fin 0)], cur_c = Kompleks (Fin (- 6)) (Fin 0),
          previous_time = 0, clock_reads = 3, cancel_reads = 2, progress = []\<rparr>
         False False"
  by (simp add: render_defs escapes_at_def escape_test_def)

section \<open>The fixed point at the origin\<close>

text \<open>
  Claim C5, as amended. For the Mandelbrot variant with exponent 2 in normal mode, at the
  point \<open>c = (0, 0)\<close> with a window of at least one entry (filled with the initial
  \<open>Z = 0\<close>) and \<open>max_iterations\<close> at least 1, the orbit is \<open>Z = 0\<close> at every step, and the loop
  ends the pixel as periodic in its first pass, that is with the loop variable \<open>n = 0\<close>:
  \<open>run\<close> advances by one, \<open>max_period_n\<close> is not raised, and the match distance is the size
  of the window. The claim as stated has \<open>n = 1\<close>.
\<close>

theorem origin_periodic_first_pass:
  assumes "type (fractal_opt g) = mandelbrot" and "exponent (fractal_opt g) = Fin 2"
    and "\<not> single (fractal_opt g)" and "1 \<le> pCheckN g" and "1 \<le> max_iterations g"
    and "cur_c s = Kompleks (Fin 0) (Fin 0)"
    and "pCheck s = replicate (pCheckN g) (Kompleks (Fin 0) (Fin 0))"
  shows "(\<forall>k. orbit (fractal_opt g) (Kompleks (Fin 0) (Fin 0)) (Kompleks (Fin 0) (Fin 0)) k
              = (Kompleks (Fin 0) (Fin 0), Kompleks (Fin 0) (Fin 0)))
    \<and> matches_at g (Kompleks (Fin 0) (Fin 0)) (cur_c s) (pCheck s) 0
    \<and> iterations e g pX pY (Kompleks (Fin 0) (Fin 0)) 0 s
        = (None,
           s\<lparr>run := u64 (run s + 1),
             max_period := (if pCheckN g > max_period s then pCheckN g else max_period s),
             max_period_n := max_period_n s,
             periodic := periodic s + 1\<rparr>)"
proof -
  let ?O = "Kompleks (Fin 0) (Fin 0)"
  have it: "iterate (fractal_opt g) ?O ?O k = (?O, ?O)" for k
    using assms(1,2) by (simp add: iterate_def pow_k_2)
  have orb: "orbit (fractal_opt g) ?O ?O k = (?O, ?O)" for k
    by (induction k) (simp_all add: it)
  obtain m where m: "pCheckN g = Suc m"
    using assms(4) by (cases "pCheckN g") simp_all
  have w: "window_match (pCheck s) ?O = pCheck s"
    by (simp add: window_match_def assms(7) m)
  have nz: "next_Z g ?O 0 s = ?O"
    by (simp add: next_Z_def assms(6) it)
  have c: "checks_period g"
    using assms(3,4) by (simp add: checks_period_def)
  have ne: "\<not> escape_test g ?O 0"
    using assms(3) by (simp add: escape_test_def)
  have lt: "0 < max_iterations g"
    using assms(5) by simp
  have nonempty: "window_match (pCheck s) (next_Z g ?O 0 s) \<noteq> []"
    unfolding nz w by (simp add: assms(7) m)
  have "iterations e g pX pY ?O 0 s = ends_periodic g ?O 0 s"
    by (rule iterations_periodic [OF lt ne c nonempty])
  also have "\<dots> = (None,
           s\<lparr>run := u64 (run s + 1),
             max_period := (if pCheckN g > max_period s then pCheckN g else max_period s),
             max_period_n := max_period_n s,
             periodic := periodic s + 1\<rparr>)"
  proof -
    have len: "length (window_match (pCheck s) (next_Z g ?O 0 s)) = pCheckN g"
      unfolding nz w by (simp add: assms(7))
    have "s\<lparr>cur_c := ?O\<rparr> = s"
      using assms(6) by (cases s) simp
    then have adv: "advanced g ?O 0 s = s\<lparr>run := u64 (run s + 1)\<rparr>"
      by (simp add: advanced_def assms(6) it)
    show ?thesis
      unfolding ends_periodic_def len adv by simp
  qed
  finally have run: "iterations e g pX pY ?O 0 s = (None,
           s\<lparr>run := u64 (run s + 1),
             max_period := (if pCheckN g > max_period s then pCheckN g else max_period s),
             max_period_n := max_period_n s,
             periodic := periodic s + 1\<rparr>)" .
  have "matches_at g ?O (cur_c s) (pCheck s) 0"
    using c nonempty by (simp add: matches_at_def next_Z_def assms(6))
  with orb run show ?thesis
    by simp
qed


theorem origin_periodic_first_pass_witness:
  "iterations quiet_env origin_pixel 0 0 (Kompleks (Fin 0) (Fin 0)) 0
     (initial quiet_env origin_pixel)
   = (None, (initial quiet_env origin_pixel)\<lparr>run := 1, max_period := 1, periodic := 1\<rparr>)
   \<and> max_period_n (initial quiet_env origin_pixel) = 0"
proof -
  have h1: "type (fractal_opt origin_pixel) = mandelbrot" by simp
  have h2: "exponent (fractal_opt origin_pixel) = Fin 2" by simp
  have h3: "\<not> single (fractal_opt origin_pixel)" by simp
  have h4: "1 \<le> pCheckN origin_pixel" by simp
  have h5: "1 \<le> max_iterations origin_pixel" by simp
  have h6: "cur_c (initial quiet_env origin_pixel) = Kompleks (Fin 0) (Fin 0)"
    by (simp add: initial_def kompleks_default_def)
  have h7: "pCheck (initial quiet_env origin_pixel)
      = replicate (pCheckN origin_pixel) (Kompleks (Fin 0) (Fin 0))"
    by (simp add: initial_def kompleks_default_def)
  from origin_periodic_first_pass [OF h1 h2 h3 h4 h5 h6 h7, of quiet_env 0 0]
  show ?thesis
    by (simp add: initial_def u64_def)
qed

text \<open>The run with \<open>-r 1 -el 16\<close>: one pixel at the origin. The statistics report the
  largest \<open>n\<close> at which a period was found, \<open>max_period_n\<close>, as 0.\<close>

theorem origin_periodic_at_n_0:
  "point_x origin_pixel 0 = Fin 0 \<and> point_y origin_pixel 0 = Fin 0
   \<and> \<not> can_skip (fractal_opt origin_pixel) (Fin 0) (Fin 0)
   \<and> createFractal quiet_env origin_pixel =
       Saved
         \<lparr>currentPoint = 1, periodic = 1, escaped = 0, not_escaped = 0, skipped = 0,
          run = 1, max_n = 0, max_period = 1, max_period_n = 0, image = Map.empty,
          pCheck = [Kompleks (Fin 0) (Fin 0)], cur_c = Kompleks (Fin 0) (Fin 0),
          previous_time = 0, clock_reads = 3, cancel_reads = 2, progress = []\<rparr>
         False False"
  by (simp add: render_defs)

section \<open>The start of an orbit\<close>

text \<open>
  Claim C10. For a pixel that the shortcut does not take, the loop over \<open>n\<close> starts at
  \<open>n = 0\<close> with \<open>Z\<close> zero for the variants \<open>mandelbrot\<close> and \<open>clouds\<close> and \<open>Z\<close> the point of the
  pixel for every other variant (so also for \<open>oops\<close>), with \<open>c\<close> the Julia constant for the
  variant \<open>julia\<close> and the point of the pixel otherwise, and with every entry of the window
  equal to that initial \<open>Z\<close>.
\<close>

theorem pixel_seeding:
  assumes "\<not> can_skip (fractal_opt g) (point_x g pX) (point_y g pY)"
  shows "pixel e g pX pY s =
     end_of_pixel e
       (iterations e g pX pY
          (if type (fractal_opt g) = mandelbrot \<or> type (fractal_opt g) = clouds
           then Kompleks (Fin 0) (Fin 0)
           else Kompleks (point_x g pX) (point_y g pY))
          0
          ((report_progress e g s)\<lparr>
             cur_c :=
               (if type (fractal_opt g) = julia
                then Kompleks (juliaA (fractal_opt g)) (juliaB (fractal_opt g))
                else Kompleks (point_x g pX) (point_y g pY)),
             pCheck :=
               replicate (length (pCheck s))
                 (if type (fractal_opt g) = mandelbrot \<or> type (fractal_opt g) = clouds
                  then Kompleks (Fin 0) (Fin 0)
                  else Kompleks (point_x g pX) (point_y g pY))\<rparr>))"
  using assms by (auto simp add: pixel_def Let_def kompleks_default_def)

theorem pixel_seeding_witness:
  "\<not> can_skip (fractal_opt (two_pixels\<lparr>fractal_opt := default_fractal_opt\<lparr>type := oops_type\<rparr>\<rparr>))
       (point_x (two_pixels\<lparr>fractal_opt := default_fractal_opt\<lparr>type := oops_type\<rparr>\<rparr>) 1)
       (point_y (two_pixels\<lparr>fractal_opt := default_fractal_opt\<lparr>type := oops_type\<rparr>\<rparr>) 0)
   \<and> pixel quiet_env (two_pixels\<lparr>fractal_opt := default_fractal_opt\<lparr>type := oops_type\<rparr>\<rparr>) 1 0
       (initial quiet_env two_pixels)
     = end_of_pixel quiet_env
         (iterations quiet_env
            (two_pixels\<lparr>fractal_opt := default_fractal_opt\<lparr>type := oops_type\<rparr>\<rparr>) 1 0
            (Kompleks (Fin 1) (Fin 0)) 0
            ((initial quiet_env two_pixels)\<lparr>
               cur_c := Kompleks (Fin 1) (Fin 0), pCheck := [Kompleks (Fin 1) (Fin 0)],
               clock_reads := 2\<rparr>))"
proof -
  let ?g = "two_pixels\<lparr>fractal_opt := default_fractal_opt\<lparr>type := oops_type\<rparr>\<rparr>"
  have h: "\<not> can_skip (fractal_opt ?g) (point_x ?g 1) (point_y ?g 0)"
    by (simp add: can_skip_def)
  from pixel_seeding [OF h, of quiet_env "initial quiet_env two_pixels"] h
  show ?thesis
    by (simp add: point_x_def point_y_def xinterval_def yinterval_def ld_of_nat_def
        report_progress_def initial_def numeral_2_eq_2)
qed


section \<open>Cancellation\<close>

lemma four_skipped_fields [simp]:
  "fractal_opt four_skipped =
     default_fractal_opt\<lparr>lbound := Fin (- 1.5), rbound := Fin 0.5,
       bbound := Fin (- 0.25), ubound := Fin 0.25\<rparr>"
  "color_opt four_skipped = default_color_opt"
  "width_px four_skipped = 2" "height_px four_skipped = 2" "max_iterations four_skipped = 1024"
  "pCheckN four_skipped = 1"
  by (simp_all add: four_skipped_def)

text \<open>
  Claim C8 does not hold of the code. The run is over the four pixels of \<open>four_skipped\<close>,
  and the signal arrives when the first pixel has been processed: the first read of
  \<open>cancel\<close> sees it clear, every later read sees it set. The second pixel is counted as
  skipped before \<open>cancel\<close> is read; the \<open>break\<close> leaves the loop over \<open>pX\<close> only, so the first
  pixel of the second row is counted too. The run ends with \<open>currentPoint = 1\<close> and three
  pixels counted, and prints its own message that the counters do not add up.
\<close>

theorem cancelled_after_one_pixel:
  "createFractal (quiet_env\<lparr>sigint := Some 1\<rparr>) four_skipped =
     Saved
       \<lparr>currentPoint = 1, periodic = 0, escaped = 0, not_escaped = 0, skipped = 3, run = 0,
        max_n = 0, max_period = 0, max_period_n = 0, image = Map.empty,
        pCheck = [Kompleks (Fin 0) (Fin 0)], cur_c = Kompleks (Fin 0) (Fin 0),
        previous_time = 0, clock_reads = 5, cancel_reads = 4, progress = []\<rparr>
       True True"
  by (simp add: render_defs)


section \<open>Errors of the configuration\<close>

lemma string_to_fractal_type_from_unknown:
  "typestr \<notin> fst ` set names
   \<Longrightarrow> string_to_fractal_type_from names typestr = Inl (Unknown_fractal_type typestr)"
  by (induction names) auto

lemma string_to_fractal_type_from_known:
  "typestr \<in> fst ` set names \<Longrightarrow> \<exists>t. string_to_fractal_type_from names typestr = Inr t"
proof (induction names)
  case Nil
  then show ?case by simp
next
  case (Cons a names)
  obtain name t where a: "a = (name, t)" by (cases a)
  show ?case
  proof (cases "typestr = name")
    case True
    then show ?thesis by (simp add: a)
  next
    case False
    with Cons.prems have "typestr \<in> fst ` set names" by (auto simp add: a)
    with Cons.IH False show ?thesis by (simp add: a)
  qed
qed

lemma colorize_invalid:
  assumes "17 < color_method"
  shows "colorize r fopt copt color_method Z c n = Inl (Invalid_color_method color_method)"
  using assms by (subst colorize.simps) (simp add: channels_def)

lemma iterations_invalid:
  assumes m: "17 < method_index (color_opt g)"
  shows "n \<le> max_iterations g \<Longrightarrow> iterations e g pX pY Z n s = (r, s')
    \<Longrightarrow> (r = None \<and> escaped s' = escaped s)
      \<or> (r = Some (Invalid_color_method (method_index (color_opt g)))
          \<and> escaped s' = escaped s + 1)"
proof (induction "max_iterations g - n" arbitrary: n Z s)
  case 0
  then have n: "n = max_iterations g" by simp
  show ?case
  proof (cases "escape_test g Z n")
    case True
    from "0.prems"(2) show ?thesis
      unfolding iterations_escape [OF "0.prems"(1) True] ends_escaped_def colorize_invalid [OF m]
      by auto
  next
    case False
    from "0.prems"(2) show ?thesis
      unfolding iterations_bounded [OF n False] ends_bounded_def by auto
  qed
next
  case (Suc k)
  then have n: "n < max_iterations g" by simp
  show ?case
  proof (cases "escape_test g Z n")
    case True
    from Suc.prems(2) show ?thesis
      unfolding iterations_escape [OF Suc.prems(1) True] ends_escaped_def colorize_invalid [OF m]
      by auto
  next
    case False
    show ?thesis
    proof (cases "checks_period g \<and> window_match (pCheck s) (next_Z g Z n s) \<noteq> []")
      case True
      then have c: "checks_period g" and w: "window_match (pCheck s) (next_Z g Z n s) \<noteq> []"
        by simp_all
      from Suc.prems(2) show ?thesis
        unfolding iterations_periodic [OF n False c w] ends_periodic_def
        by (auto simp add: advanced_def)
    next
      case hit: False
      then have nm: "checks_period g \<longrightarrow> window_match (pCheck s) (next_Z g Z n s) = []"
        by simp
      let ?s1 = "slid g (next_Z g Z n s) (advanced g Z n s)"
      show ?thesis
      proof (cases "cancel_now e ?s1")
        case True
        with Suc.prems(2) show ?thesis
          unfolding iterations_step [OF n False nm] by auto
      next
        case False
        with Suc.prems(2)
        have "iterations e g pX pY (next_Z g Z n s) (n + 1) (after_read ?s1) = (r, s')"
          unfolding iterations_step [OF n \<open>\<not> escape_test g Z n\<close> nm] by simp
        moreover from Suc.hyps(2) n have "k = max_iterations g - (n + 1)" by simp
        moreover from n have "n + 1 \<le> max_iterations g" by simp
        ultimately have "(r = None \<and> escaped s' = escaped (after_read ?s1))
          \<or> (r = Some (Invalid_color_method (method_index (color_opt g)))
              \<and> escaped s' = escaped (after_read ?s1) + 1)"
          using Suc.hyps(1) by blast
        then show ?thesis by simp
      qed
    qed
  qed
qed


lemma pixel_not_skipped:
  assumes "\<not> can_skip (fractal_opt g) (point_x g pX) (point_y g pY)"
  shows "pixel e g pX pY s =
     end_of_pixel e
       (iterations e g pX pY
          (if type (fractal_opt g) = mandelbrot \<or> type (fractal_opt g) = clouds
           then Kompleks (Fin 0) (Fin 0)
           else Kompleks (point_x g pX) (point_y g pY))
          0
          ((report_progress e g s)\<lparr>
             cur_c :=
               (if type (fractal_opt g) = julia
                then Kompleks (juliaA (fractal_opt g)) (juliaB (fractal_opt g))
                else Kompleks (point_x g pX) (point_y g pY)),
             pCheck :=
               replicate (length (pCheck s))
                 (if type (fractal_opt g) = mandelbrot \<or> type (fractal_opt g) = clouds
                  then Kompleks (Fin 0) (Fin 0)
                  else Kompleks (point_x g pX) (point_y g pY))\<rparr>))"
  using assms by (auto simp add: pixel_def Let_def kompleks_default_def)

lemma end_of_pixel_escaped:
  "end_of_pixel e (r, s) = (r', b, s') \<Longrightarrow> r' = r \<and> escaped s' = escaped s"
  by (cases r) (auto simp add: end_of_pixel_def after_read_def split: if_splits)

lemma pixel_invalid:
  assumes m: "17 < method_index (color_opt g)" and px: "pixel e g pX pY s = (r, b, s')"
  shows "(r = None \<and> escaped s' = escaped s)
      \<or> (r = Some (Invalid_color_method (method_index (color_opt g)))
          \<and> escaped s' = escaped s + 1)"
proof (cases "can_skip (fractal_opt g) (point_x g pX) (point_y g pY)")
  case True
  from px end_of_pixel_escaped [of e None "(report_progress e g s)\<lparr>skipped := skipped s + 1\<rparr>" r b s']
  show ?thesis
    unfolding pixel_skipped [OF True] by simp
next
  case False
  define Z where "Z = (if type (fractal_opt g) = mandelbrot \<or> type (fractal_opt g) = clouds
           then Kompleks (Fin 0) (Fin 0) else Kompleks (point_x g pX) (point_y g pY))"
  define s0 where "s0 = (report_progress e g s)\<lparr>
             cur_c := (if type (fractal_opt g) = julia
                then Kompleks (juliaA (fractal_opt g)) (juliaB (fractal_opt g))
                else Kompleks (point_x g pX) (point_y g pY)),
             pCheck := replicate (length (pCheck s)) Z\<rparr>"
  obtain r1 s1 where it: "iterations e g pX pY Z 0 s0 = (r1, s1)"
    by (cases "iterations e g pX pY Z 0 s0") auto
  have "pixel e g pX pY s = end_of_pixel e (iterations e g pX pY Z 0 s0)"
    unfolding Z_def s0_def by (rule pixel_not_skipped [OF False])
  with px it have "end_of_pixel e (r1, s1) = (r, b, s')" by simp
  from end_of_pixel_escaped [OF this] iterations_invalid [OF m _ it]
  show ?thesis
    by (auto simp add: s0_def)
qed

lemma row_invalid:
  assumes m: "17 < method_index (color_opt g)"
  shows "row e g pY pX s = (r, s')
    \<Longrightarrow> (r = None \<and> escaped s' = escaped s)
      \<or> (r = Some (Invalid_color_method (method_index (color_opt g)))
          \<and> escaped s' = escaped s + 1)"
proof (induction "width_px g - pX" arbitrary: pX s)
  case 0
  then show ?case by (simp add: row.simps)
next
  case (Suc k)
  then have lt: "pX < width_px g" by simp
  obtain r1 b s1 where px: "pixel e g pX pY s = (r1, b, s1)"
    by (cases "pixel e g pX pY s") auto
  note inv = pixel_invalid [OF m px]
  show ?case
  proof (cases "r1 = None \<and> \<not> b")
    case True
    with lt Suc.prems px have rest: "row e g pY (pX + 1) s1 = (r, s')"
      by (simp add: row.simps)
    from Suc.hyps(2) have "k = width_px g - (pX + 1)" by simp
    from Suc.hyps(1) [OF this rest] inv True show ?thesis by auto
  next
    case False
    with lt Suc.prems px have "r = r1 \<and> s' = s1"
      by (cases r1; cases b) (simp_all add: row.simps)
    with inv show ?thesis by simp
  qed
qed

lemma rows_invalid:
  assumes m: "17 < method_index (color_opt g)"
  shows "rows e g pY s = (r, s')
    \<Longrightarrow> (r = None \<and> escaped s' = escaped s)
      \<or> (r = Some (Invalid_color_method (method_index (color_opt g)))
          \<and> escaped s' = escaped s + 1)"
proof (induction "height_px g - pY" arbitrary: pY s)
  case 0
  then show ?case by (simp add: rows.simps)
next
  case (Suc k)
  then have lt: "pY < height_px g" by simp
  obtain r1 s1 where rw: "row e g pY 0 s = (r1, s1)"
    by (cases "row e g pY 0 s") auto
  note inv = row_invalid [OF m rw]
  show ?case
  proof (cases r1)
    case None
    with lt Suc.prems rw have rest: "rows e g (pY + 1) s1 = (r, s')"
      by (simp add: rows.simps)
    from Suc.hyps(2) have "k = height_px g - (pY + 1)" by simp
    from Suc.hyps(1) [OF this rest] inv None show ?thesis by auto
  next
    case (Some err)
    with lt Suc.prems rw have "r = r1 \<and> s' = s1"
      by (simp add: rows.simps)
    with inv show ?thesis by simp
  qed
qed

lemma createFractal_invalid:
  assumes m: "17 < method_index (color_opt g)"
  shows "(\<exists>s. createFractal e g = Thrown (Invalid_color_method (method_index (color_opt g))) s
            \<and> escaped s = 1)
       \<or> (\<exists>s part bug. createFractal e g = Saved s part bug \<and> escaped s = 0)"
proof -
  obtain r s1 where rs: "rows e g 0 (initial e g) = (r, s1)"
    by (cases "rows e g 0 (initial e g)") auto
  have e0: "escaped (initial e g) = 0"
    by (simp add: initial_def)
  from rows_invalid [OF m rs] show ?thesis
    unfolding createFractal_def rs e0
    by (cases r) (auto simp add: Let_def after_read_def)
qed


text \<open>
  Claim C4, as amended. A name that is not one of the sixteen fractal types makes \<open>main\<close>
  return 1 before \<open>createFractal\<close> is called (given a width that fits 32 bits, which is
  computed first). A colour method above 17 is not checked by \<open>main\<close>: \<open>colorize\<close> throws
  when it is first called, which is at the first pixel that escapes, after the pixels
  before it have been processed and counted; when no pixel escapes the run saves its
  image and returns 0.
\<close>

theorem configuration_errors:
  assumes "cast_uint32 (ld_round (ld_of_nat (arg_r a mod 2 ^ 32) * arg_wm a)) = Inr w"
  shows "(arg_t a \<notin> fst ` set FractalType_strings
            \<longrightarrow> main e a = Return_1 (Unknown_fractal_type (arg_t a)))
    \<and> (arg_t a \<in> fst ` set FractalType_strings \<and> 17 < arg_c a \<and> arg_c a < 2 ^ 64
            \<longrightarrow> (\<exists>s. main e a = Uncaught (Invalid_color_method (arg_c a)) s \<and> escaped s = 1)
              \<or> (\<exists>s part bug. main e a = Return_0 s part bug \<and> escaped s = 0))"
proof (intro conjI impI)
  assume "arg_t a \<notin> fst ` set FractalType_strings"
  from string_to_fractal_type_from_unknown [OF this] assms
  show "main e a = Return_1 (Unknown_fractal_type (arg_t a))"
    by (simp add: main_def configure_def Let_def bind_result_def string_to_fractal_type_def)
next
  assume h: "arg_t a \<in> fst ` set FractalType_strings \<and> 17 < arg_c a \<and> arg_c a < 2 ^ 64"
  then obtain t where t: "string_to_fractal_type (arg_t a) = Inr t"
    using string_to_fractal_type_from_known [of "arg_t a" FractalType_strings]
    by (auto simp add: string_to_fractal_type_def)
  then obtain g where g: "configure a = Inr g" and m: "method_index (color_opt g) = arg_c a"
    using h assms by (simp add: configure_def Let_def bind_result_def)
  from h m have "17 < method_index (color_opt g)" by simp
  from createFractal_invalid [OF this, of e]
  show "(\<exists>s. main e a = Uncaught (Invalid_color_method (arg_c a)) s \<and> escaped s = 1)
      \<or> (\<exists>s part bug. main e a = Return_0 s part bug \<and> escaped s = 0)"
    by (auto simp add: main_def g m)
qed

lemma configure_two_pixels:
  "configure (default_arguments\<lparr>arg_c := 18, arg_r := 1, arg_wm := Fin 2\<rparr>)
   = Inr (two_pixels\<lparr>color_opt := default_color_opt\<lparr>method_index := 18\<rparr>\<rparr>)"
  by (simp add: configure_def default_arguments_def Let_def bind_result_def cast_uint32_def
      cast_to_def trunc_to_zero_def round_half_away_def ld_of_nat_def string_to_fractal_type_def
      FractalType_strings_def two_pixels_def default_fractal_opt_def default_color_opt_def)

text \<open>The colour method 18 with \<open>-r 1\<close> (one pixel, taken by the shortcut) returns 0; with
  \<open>-r 1 -wm 2\<close> the exception comes at the second pixel, when the first has been counted.\<close>

theorem invalid_color_method_runs:
  "main quiet_env (default_arguments\<lparr>arg_c := 18, arg_r := 1\<rparr>) =
     Return_0
       \<lparr>currentPoint = 1, periodic = 0, escaped = 0, not_escaped = 0, skipped = 1, run = 0,
        max_n = 0, max_period = 0, max_period_n = 0, image = Map.empty,
        pCheck = [Kompleks (Fin 0) (Fin 0)], cur_c = Kompleks (Fin 0) (Fin 0),
        previous_time = 0, clock_reads = 3, cancel_reads = 2, progress = []\<rparr>
       False False
   \<and> main quiet_env (default_arguments\<lparr>arg_c := 18, arg_r := 1, arg_wm := Fin 2\<rparr>) =
     Uncaught (Invalid_color_method 18)
       \<lparr>currentPoint = 1, periodic = 0, escaped = 1, not_escaped = 0, skipped = 1, run = 4,
        max_n = 3, max_period = 0, max_period_n = 0, image = Map.empty,
        pCheck = [Kompleks (Fin 5) (Fin 0)], cur_c = Kompleks (Fin 1) (Fin 0),
        previous_time = 0, clock_reads = 3, cancel_reads = 4, progress = []\<rparr>"
  by (simp add: main_def configure_def default_arguments_def bind_result_def cast_uint32_def
      cast_to_def trunc_to_zero_def round_half_away_def string_to_fractal_type_def
      FractalType_strings_def render_defs colorize.simps channels_def)

theorem configuration_errors_witness:
  "main quiet_env (default_arguments\<lparr>arg_t := ''sierpinski''\<rparr>)
     = Return_1 (Unknown_fractal_type ''sierpinski'')
   \<and> ((\<exists>s. main busy_env (default_arguments\<lparr>arg_c := 18, arg_r := 1, arg_wm := Fin 2\<rparr>)
             = Uncaught (Invalid_color_method 18) s \<and> escaped s = 1)
      \<or> (\<exists>s part bug. main busy_env (default_arguments\<lparr>arg_c := 18, arg_r := 1, arg_wm := Fin 2\<rparr>)
             = Return_0 s part bug \<and> escaped s = 0))"
proof -
  have w1: "cast_uint32 (ld_round (ld_of_nat (arg_r (default_arguments\<lparr>arg_t := ''sierpinski''\<rparr>)
               mod 2 ^ 32) * arg_wm (default_arguments\<lparr>arg_t := ''sierpinski''\<rparr>))) = Inr 1024"
    by (simp add: default_arguments_def cast_uint32_def cast_to_def trunc_to_zero_def
        round_half_away_def ld_of_nat_def)
  have n1: "arg_t (default_arguments\<lparr>arg_t := ''sierpinski''\<rparr>) \<notin> fst ` set FractalType_strings"
    by (simp add: FractalType_strings_def)
  let ?a = "default_arguments\<lparr>arg_c := 18, arg_r := 1, arg_wm := Fin 2\<rparr>"
  have w2: "cast_uint32 (ld_round (ld_of_nat (arg_r ?a mod 2 ^ 32) * arg_wm ?a)) = Inr 2"
    by (simp add: default_arguments_def cast_uint32_def cast_to_def trunc_to_zero_def
        round_half_away_def ld_of_nat_def)
  have n2: "arg_t ?a \<in> fst ` set FractalType_strings \<and> 17 < arg_c ?a \<and> arg_c ?a < 2 ^ 64"
    by (simp add: default_arguments_def FractalType_strings_def)
  from configuration_errors [OF w1, of quiet_env] n1 configuration_errors [OF w2, of busy_env] n2
  show ?thesis
    by simp
qed


section \<open>Determinism\<close>

lemma channels_rnd:
  "color_method \<noteq> 14
   \<Longrightarrow> channels r1 fopt copt color_method Z n = channels r2 fopt copt color_method Z n"
  by (simp add: channels_def cong: if_cong)

lemma colorize_rnd:
  assumes "color_method = 14 \<longrightarrow> r1 = r2"
  shows "colorize r1 fopt copt color_method Z c n = colorize r2 fopt copt color_method Z c n"
proof (cases "color_method = 14")
  case True
  with assms show ?thesis by simp
next
  case False
  have zero: "colorize r1 fopt copt 0 Z c n = colorize r2 fopt copt 0 Z c n"
    by (simp add: colorize.simps [of _ fopt copt 0] channels_rnd [of 0 r1 fopt copt Z n r2])
  show ?thesis
  proof (cases "color_method = 9")
    case True
    then show ?thesis
      by (simp add: colorize.simps [of _ fopt copt 9] zero)
  next
    case nine: False
    with False show ?thesis
      by (simp add: colorize.simps [of _ fopt copt color_method]
          channels_rnd [of color_method r1 fopt copt Z n r2])
  qed
qed

lemma with_clock_fields [simp]:
  "cur_c (with_clock a b c s) = cur_c s" "pCheck (with_clock a b c s) = pCheck s"
  "cancel_reads (with_clock a b c s) = cancel_reads s" "image (with_clock a b c s) = image s"
  "statistics (with_clock a b c s) = statistics s"
  "bug_message (with_clock a b c s) = bug_message s"
  "with_clock a b c (with_clock a' b' c' s) = with_clock a b c s"
  by (simp_all add: with_clock_def statistics_def bug_message_def)

lemma with_clock_exits:
  "ends_bounded (with_clock a b c s) = map_prod id (with_clock a b c) (ends_bounded s)"
  "ends_periodic g Z n (with_clock a b c s) = map_prod id (with_clock a b c) (ends_periodic g Z n s)"
  "next_Z g Z n (with_clock a b c s) = next_Z g Z n s"
  "after_read (slid g Z' (advanced g Z n (with_clock a b c s)))
     = with_clock a b c (after_read (slid g Z' (advanced g Z n s)))"
  by (simp_all add: with_clock_def ends_bounded_def ends_periodic_def next_Z_def after_read_def
      slid_def advanced_def)

lemma with_clock_escaped:
  assumes "method_index (color_opt g) = 14 \<longrightarrow> rnd e1 = rnd e2"
  shows "ends_escaped e2 g pX pY Z n (with_clock a b c s)
     = map_prod id (with_clock a b c) (ends_escaped e1 g pX pY Z n s)"
  unfolding ends_escaped_def
  by (simp add: colorize_rnd [OF assms, of _ _ Z "cur_c s" n] with_clock_def split: sum.splits)

lemma iterations_env:
  assumes q1: "sigint e1 = None" and q2: "sigint e2 = None"
    and r: "method_index (color_opt g) = 14 \<longrightarrow> rnd e1 = rnd e2"
  shows "n \<le> max_iterations g
    \<Longrightarrow> iterations e2 g pX pY Z n (with_clock a b c s)
        = map_prod id (with_clock a b c) (iterations e1 g pX pY Z n s)"
proof (induction "max_iterations g - n" arbitrary: n Z s)
  case 0
  then have n: "n = max_iterations g" by simp
  show ?case
  proof (cases "escape_test g Z n")
    case True
    show ?thesis
      unfolding iterations_escape [OF "0.prems" True] by (rule with_clock_escaped [OF r])
  next
    case False
    show ?thesis
      unfolding iterations_bounded [OF n False] by (rule with_clock_exits)
  qed
next
  case (Suc k)
  then have n: "n < max_iterations g" by simp
  show ?case
  proof (cases "escape_test g Z n")
    case True
    show ?thesis
      unfolding iterations_escape [OF Suc.prems True] by (rule with_clock_escaped [OF r])
  next
    case False
    show ?thesis
    proof (cases "checks_period g \<and> window_match (pCheck s) (next_Z g Z n s) \<noteq> []")
      case True
      then have cp: "checks_period g" and w: "window_match (pCheck s) (next_Z g Z n s) \<noteq> []"
        by simp_all
      from w have w': "window_match (pCheck (with_clock a b c s)) (next_Z g Z n (with_clock a b c s)) \<noteq> []"
        by (simp add: with_clock_exits)
      show ?thesis
        unfolding iterations_periodic [OF n False cp w] iterations_periodic [OF n False cp w']
        by (rule with_clock_exits)
    next
      case hit: False
      then have nm: "checks_period g \<longrightarrow> window_match (pCheck s) (next_Z g Z n s) = []"
        by simp
      then have nm': "checks_period g \<longrightarrow>
          window_match (pCheck (with_clock a b c s)) (next_Z g Z n (with_clock a b c s)) = []"
        by (simp add: with_clock_exits)
      from Suc.hyps(2) n have k: "k = max_iterations g - (n + 1)" by simp
      from n have le: "n + 1 \<le> max_iterations g" by simp
      show ?thesis
        unfolding iterations_step [OF n False nm] iterations_step [OF n False nm']
        using q1 q2 Suc.hyps(1) [OF k le]
        by (simp add: with_clock_exits)
    qed
  qed
qed


lemma report_progress_with_clock:
  "report_progress e g (with_clock a b c s)
   = with_clock (if clock e b - a \<ge> 1000000000 then clock e b else a) (b + 1)
       (if clock e b - a \<ge> 1000000000 then c @ [(currentPoint s, totalPoints g)] else c) s"
  by (simp add: report_progress_def with_clock_def Let_def)

lemma with_clock_same: "with_clock (previous_time s) (clock_reads s) (progress s) s = s"
  by (simp add: with_clock_def)

lemma end_of_pixel_with_clock:
  assumes "sigint e1 = None" and "sigint e2 = None"
  shows "end_of_pixel e2 (map_prod id (with_clock a b c) r)
     = map_prod id (map_prod id (with_clock a b c)) (end_of_pixel e1 r)"
proof (cases r)
  case (Pair thrown s)
  with assms show ?thesis
    by (cases thrown) (simp_all add: end_of_pixel_def with_clock_def after_read_def)
qed

lemma pixel_env:
  assumes q1: "sigint e1 = None" and q2: "sigint e2 = None"
    and r: "method_index (color_opt g) = 14 \<longrightarrow> rnd e1 = rnd e2"
  shows "\<exists>a' b' c'. pixel e2 g pX pY (with_clock a b c s)
     = map_prod id (map_prod id (with_clock a' b' c')) (pixel e1 g pX pY s)"
proof -
  obtain a1 b1 c1 where p1: "report_progress e1 g s = with_clock a1 b1 c1 s"
    using report_progress_with_clock [of e1 g "previous_time s" "clock_reads s" "progress s" s]
    unfolding with_clock_same by blast
  obtain a2 b2 c2 where p2: "report_progress e2 g (with_clock a b c s) = with_clock a2 b2 c2 s"
    using report_progress_with_clock [of e2 g a b c s] by blast
  have triv: "method_index (color_opt g) = 14 \<longrightarrow> rnd e1 = rnd e1"
    by simp
  define body where "body e t =
      (if can_skip (fractal_opt g) (point_x g pX) (point_y g pY)
       then (None, t\<lparr>skipped := skipped t + 1\<rparr>)
       else iterations e g pX pY
          (if type (fractal_opt g) \<noteq> clouds \<and> type (fractal_opt g) \<noteq> mandelbrot
           then Kompleks (point_x g pX) (point_y g pY) else kompleks_default) 0
          (t\<lparr>cur_c := (if type (fractal_opt g) = julia
                  then Kompleks (juliaA (fractal_opt g)) (juliaB (fractal_opt g))
                  else Kompleks (point_x g pX) (point_y g pY)),
             pCheck := replicate (length (pCheck t))
                (if type (fractal_opt g) \<noteq> clouds \<and> type (fractal_opt g) \<noteq> mandelbrot
                 then Kompleks (point_x g pX) (point_y g pY) else kompleks_default)\<rparr>))"
    for e t
  have px: "pixel e g pX pY t = end_of_pixel e (body e (report_progress e g t))" for e t
    by (simp add: pixel_def body_def Let_def)
  have upd: "(with_clock x y z t)\<lparr>cur_c := u, pCheck := v\<rparr> = with_clock x y z (t\<lparr>cur_c := u, pCheck := v\<rparr>)"
    for x y z t u v
    by (simp add: with_clock_def)
  have b: "body e' (with_clock x y z s) = map_prod id (with_clock x y z) (body e1 s)"
    if "sigint e' = None" and "method_index (color_opt g) = 14 \<longrightarrow> rnd e1 = rnd e'" for e' x y z
  proof (cases "can_skip (fractal_opt g) (point_x g pX) (point_y g pY)")
    case True
    then show ?thesis by (simp add: body_def with_clock_def)
  next
    case False
    then show ?thesis
      unfolding body_def
      by (simp add: upd iterations_env [OF q1 that] del: with_clock_fields(7))
  qed
  have "pixel e1 g pX pY s
      = map_prod id (map_prod id (with_clock a1 b1 c1)) (end_of_pixel e1 (body e1 s))"
    unfolding px p1 b [OF q1 triv] by (rule end_of_pixel_with_clock [OF q1 q1])
  moreover have "pixel e2 g pX pY (with_clock a b c s)
      = map_prod id (map_prod id (with_clock a2 b2 c2)) (end_of_pixel e1 (body e1 s))"
    unfolding px p2 b [OF q2 r] by (rule end_of_pixel_with_clock [OF q1 q2])
  ultimately have "pixel e2 g pX pY (with_clock a b c s)
      = map_prod id (map_prod id (with_clock a2 b2 c2)) (pixel e1 g pX pY s)"
    by (cases "end_of_pixel e1 (body e1 s)") simp
  then show ?thesis by blast
qed


lemma row_env:
  assumes q1: "sigint e1 = None" and q2: "sigint e2 = None"
    and r: "method_index (color_opt g) = 14 \<longrightarrow> rnd e1 = rnd e2"
  shows "\<exists>a' b' c'. row e2 g pY pX (with_clock a b c s)
     = map_prod id (with_clock a' b' c') (row e1 g pY pX s)"
proof (induction "width_px g - pX" arbitrary: pX a b c s)
  case 0
  then have "row e2 g pY pX (with_clock a b c s) = map_prod id (with_clock a b c) (row e1 g pY pX s)"
    by (simp add: row.simps)
  then show ?case by blast
next
  case (Suc k)
  then have lt: "pX < width_px g" by simp
  obtain thrown brk s1 where p1: "pixel e1 g pX pY s = (thrown, brk, s1)"
    by (cases "pixel e1 g pX pY s") auto
  from pixel_env [OF q1 q2 r, of pX pY a b c s] p1
  obtain a1 b1 c1 where p2: "pixel e2 g pX pY (with_clock a b c s) = (thrown, brk, with_clock a1 b1 c1 s1)"
    by auto
  show ?case
  proof (cases "thrown = None \<and> \<not> brk")
    case True
    from Suc.hyps(2) have "k = width_px g - (pX + 1)" by simp
    from Suc.hyps(1) [OF this, of a1 b1 c1 s1] lt p1 p2 True show ?thesis
      by (simp add: row.simps [of e1 g pY pX] row.simps [of e2 g pY pX])
  next
    case False
    with lt p1 p2
    have "row e2 g pY pX (with_clock a b c s) = map_prod id (with_clock a1 b1 c1) (row e1 g pY pX s)"
      by (cases thrown; cases brk) (simp_all add: row.simps [of e1 g pY pX] row.simps [of e2 g pY pX])
    then show ?thesis by blast
  qed
qed

lemma rows_env:
  assumes q1: "sigint e1 = None" and q2: "sigint e2 = None"
    and r: "method_index (color_opt g) = 14 \<longrightarrow> rnd e1 = rnd e2"
  shows "\<exists>a' b' c'. rows e2 g pY (with_clock a b c s)
     = map_prod id (with_clock a' b' c') (rows e1 g pY s)"
proof (induction "height_px g - pY" arbitrary: pY a b c s)
  case 0
  then have "rows e2 g pY (with_clock a b c s) = map_prod id (with_clock a b c) (rows e1 g pY s)"
    by (simp add: rows.simps)
  then show ?case by blast
next
  case (Suc k)
  then have lt: "pY < height_px g" by simp
  obtain thrown s1 where p1: "row e1 g pY 0 s = (thrown, s1)"
    by (cases "row e1 g pY 0 s") auto
  from row_env [OF q1 q2 r, of pY 0 a b c s] p1
  obtain a1 b1 c1 where p2: "row e2 g pY 0 (with_clock a b c s) = (thrown, with_clock a1 b1 c1 s1)"
    by auto
  show ?case
  proof (cases thrown)
    case None
    from Suc.hyps(2) have "k = height_px g - (pY + 1)" by simp
    from Suc.hyps(1) [OF this, of a1 b1 c1 s1] lt p1 p2 None show ?thesis
      by (simp add: rows.simps [of e1 g pY] rows.simps [of e2 g pY])
  next
    case (Some err)
    with lt p1 p2
    have "rows e2 g pY (with_clock a b c s) = map_prod id (with_clock a1 b1 c1) (rows e1 g pY s)"
      by (simp add: rows.simps [of e1 g pY] rows.simps [of e2 g pY])
    then show ?thesis by blast
  qed
qed

text \<open>
  Claim C7. Two renders of the same configuration (options, dimensions, iteration budget,
  colour options), neither of them cancelled, write the same pixels and end with the same
  statistics, and with the same exception if \<open>colorize\<close> throws, whatever the clock reads
  in either run; only the progress reports differ. For every colour method but 14 this
  holds whatever the generator of the C library returns. Method 14 draws its three
  channels from that generator, seeded anew with the iteration count \<open>n\<close> of the pixel:
  with the same generator in both runs, its renders agree as well.
\<close>

theorem render_deterministic:
  assumes "sigint e1 = None" and "sigint e2 = None"
    and "method_index (color_opt g) = 14 \<longrightarrow> rnd e1 = rnd e2"
  shows "observable (createFractal e2 g) = observable (createFractal e1 g)"
proof -
  have i: "initial e2 g = with_clock (clock e2 0) 1 [] (initial e1 g)"
    by (simp add: initial_def with_clock_def)
  obtain thrown s1 where p1: "rows e1 g 0 (initial e1 g) = (thrown, s1)"
    by (cases "rows e1 g 0 (initial e1 g)") auto
  from rows_env [OF assms, of 0 "clock e2 0" 1 "[]" "initial e1 g"] p1
  obtain a b c where p2: "rows e2 g 0 (initial e2 g) = (thrown, with_clock a b c s1)"
    unfolding i by auto
  show ?thesis
    unfolding createFractal_def p1 p2 using assms(1,2)
    by (cases thrown)
       (simp_all add: Let_def statistics_def with_clock_def after_read_def bug_message_def)
qed

theorem render_deterministic_witness:
  "sigint quiet_env = None \<and> sigint busy_env = None
   \<and> observable (createFractal busy_env two_pixels) = observable (createFractal quiet_env two_pixels)
   \<and> createFractal busy_env two_pixels \<noteq> createFractal quiet_env two_pixels"
proof -
  have h1: "sigint quiet_env = None" by simp
  have h2: "sigint busy_env = None" by (simp add: busy_env_def)
  have h3: "method_index (color_opt two_pixels) = 14 \<longrightarrow> rnd quiet_env = rnd busy_env"
    by simp
  have "progress (case createFractal busy_env two_pixels of Saved s _ _ \<Rightarrow> s | Thrown _ s \<Rightarrow> s)
      \<noteq> progress (case createFractal quiet_env two_pixels of Saved s _ _ \<Rightarrow> s | Thrown _ s \<Rightarrow> s)"
    by (simp add: render_defs colorize_defs busy_env_def)
  then have "createFractal busy_env two_pixels \<noteq> createFractal quiet_env two_pixels"
    by auto
  with render_deterministic [OF h1 h2 h3] h1 h2 show ?thesis
    by simp
qed

section \<open>The shortcut at sample points\<close>

lemma one_one_fields [simp]:
  "fractal_opt one_one = default_fractal_opt\<lparr>lbound := Fin 0, bbound := Fin 0\<rparr>"
  "color_opt one_one = default_color_opt"
  "width_px one_one = 1" "height_px one_one = 1" "max_iterations one_one = 1024"
  "pCheckN one_one = 1"
  by (simp_all add: one_one_def)

text \<open>
  The shortcut at the three points the specification names: it takes \<open>(0, 0)\<close> and
  \<open>(-1, 0)\<close>, whose orbits 0, 0, 0, ... and 0, -1, 0, -1, ... never pass the escape test, and
  it does not take \<open>(1, 1)\<close>, whose orbit 0, (1, 1), (1, 3) passes the test at \<open>n = 2\<close>. That
  every point the shortcut takes has an orbit within the escape limit is the inclusion
  of the main cardioid and of the disc of period 2 in the Mandelbrot set, a theorem of
  complex dynamics that is not proved here.
\<close>

lemma can_skip_samples:
  "can_skip default_fractal_opt (Fin 0) (Fin 0)"
  "can_skip default_fractal_opt (Fin (- 1)) (Fin 0)"
  "\<not> can_skip default_fractal_opt (Fin 1) (Fin 1)"
  by (simp_all add: can_skip_def Let_def)

lemma orbit_origin:
  "orbit default_fractal_opt kompleks_default (Kompleks (Fin 0) (Fin 0)) k
     = (Kompleks (Fin 0) (Fin 0), Kompleks (Fin 0) (Fin 0))"
  by (induction k) (simp_all add: kompleks_default_def iterate_def pow_k_2)

lemma orbit_minus_one:
  "orbit default_fractal_opt kompleks_default (Kompleks (Fin (- 1)) (Fin 0)) k
     = (Kompleks (Fin (if even k then 0 else - 1)) (Fin 0), Kompleks (Fin (- 1)) (Fin 0))"
  by (induction k) (simp_all add: kompleks_default_def iterate_def pow_k_2)

lemma sample_orbits_bounded:
  "\<not> escapes_at two_pixels kompleks_default (Kompleks (Fin 0) (Fin 0)) n"
  "\<not> escapes_at two_pixels kompleks_default (Kompleks (Fin (- 1)) (Fin 0)) n"
  by (simp_all add: escapes_at_def escape_test_def orbit_origin orbit_minus_one less_ldouble_def)

lemma one_one_escapes:
  "escapes_at one_one kompleks_default (Kompleks (Fin 1) (Fin 1)) 2"
  by (simp add: escapes_at_def escape_test_def numeral_2_eq_2 kompleks_default_def iterate_def
      pow_k_2 less_ldouble_def)

lemma one_one_run:
  "createFractal quiet_env one_one =
     Saved
       \<lparr>currentPoint = 1, periodic = 0, escaped = 1, not_escaped = 0, skipped = 0, run = 3,
        max_n = 2, max_period = 0, max_period_n = 0,
        image = [(0, 0) \<mapsto> \<lparr>red = 4, green = 2, blue = 1\<rparr>],
        pCheck = [Kompleks (Fin 1) (Fin 3)], cur_c = Kompleks (Fin 1) (Fin 1),
        previous_time = 0, clock_reads = 3, cancel_reads = 4, progress = []\<rparr>
       False False"
  by (simp add: render_defs colorize_defs)

section \<open>The tail of \<open>colorize\<close>\<close>

lemma trunc_to_zero_of_int [simp]: "trunc_to_zero (of_int k) = k"
  by (simp add: trunc_to_zero_def)

lemma round_half_away_range:
  assumes "0 \<le> a" and "a \<le> 255"
  shows "0 \<le> round_half_away a \<and> round_half_away a \<le> 255"
proof -
  from assms have "\<lfloor>a + 1 / 2\<rfloor> \<le> 255" by linarith
  moreover from assms have "0 \<le> \<lfloor>a + 1 / 2\<rfloor>" by linarith
  ultimately show ?thesis using assms by (simp add: round_half_away_def)
qed

lemma clamp_cases:
  "clamp (Fin a) = Fin (max 0 (min 255 a))"
  "clamp PInf = Fin 255" "clamp NInf = Fin 0" "clamp NaN = NaN"
  by (simp_all add: clamp_def less_ldouble_def max_def min_def)


text \<open>The conversion of a value between 0 and 255 is a defined one.\<close>

lemma to_channel_Fin:
  assumes "0 \<le> a" and "a \<le> 255"
  shows "to_channel (Fin a) = Inr (word_of_nat (nat (round_half_away a)))"
  using round_half_away_range [OF assms]
  by (simp add: to_channel_def cast_uint8_def cast_to_def)

















text \<open>A channel that is a NaN: with \<open>-clog 2\<close>, the colour method 0 and \<open>n = 1\<close> the three
  channels 2, 1 and 0 become \<open>ln (ln 2)\<close>, which is negative, minus infinity, and a NaN.
  The clamp leaves the NaN, and the conversion gives the channel the value 0 in the model.
  The run with \<open>-clog 2 -r 1 -lbound 2 -rbound 4\<close> has one pixel, at the point \<open>(3, 0)\<close>, which
  escapes at \<open>n = 1\<close>: the pixel is written black, the run saves its image and returns 0.\<close>

lemma two_log_passes:
  "log_passes 2 (Fin 2, Fin 1, Fin 0) = (Fin (ln (ln 2)), NInf, NaN)"
  "clamp (apply_multiplier copt m NaN) = NaN"
  by (simp_all add: numeral_2_eq_2 apply_multiplier_def times_ldouble_def clamp_cases)

lemma colorize_two_logs:
  assumes "c_log copt = 2" and "\<not> smooth copt" and "multiplier copt = Fin 1"
  shows "colorize gen fopt copt 0 Z c (Suc 0) = Inr \<lparr>red = 0, green = 0, blue = 0\<rparr>"
proof -
  have ch: "channels gen fopt copt 0 Z (Suc 0) = Inr (Fin 2, Fin 1, Fin 0)"
    using assms(2)
    by (simp add: channels_def channels_0_def shl64_def shr64_def u64_def ld_of_nat_def)
  have zero: "to_channel (Fin 0) = Inr 0"
    by (simp add: to_channel_Fin round_half_away_def)
  have neg: "clamp (Fin (ln (ln 2))) = Fin 0"
  proof -
    define x :: real where "x = ln (ln 2)"
    have "x < 0" unfolding x_def using ln_2_less_1 by simp
    then have "clamp (Fin x) = Fin 0" by (simp add: clamp_cases)
    then show ?thesis unfolding x_def .
  qed
  have r: "to_channel (clamp (apply_multiplier copt 0 (Fin (ln (ln 2))))) = Inr 0"
    by (simp add: apply_multiplier_def assms(3) neg zero del: ln_less_zero_iff)
  have g: "to_channel (clamp (apply_multiplier copt 0 NInf)) = Inr 0"
    by (simp add: apply_multiplier_def assms(3) times_ldouble_def ld_sign_def clamp_cases zero)
  have b: "to_channel (clamp (apply_multiplier copt 0 NaN)) = Inr 0"
    by (simp add: two_log_passes(2) to_channel_def cast_uint8_def cast_to_def)
  have "finish copt 0 (Fin 2, Fin 1, Fin 0) = Inr \<lparr>red = 0, green = 0, blue = 0\<rparr>"
    by (simp add: finish_def assms(1) two_log_passes(1) r g b bind_result_def)
  then show ?thesis
    by (simp add: colorize.simps [of gen fopt copt 0] ch)
qed

lemma two_log_passes_run:
  "main quiet_env
     (default_arguments\<lparr>arg_clog := 2, arg_r := 1, arg_lbound := Fin 2, arg_rbound := Fin 4\<rparr>)
   = Return_0
       \<lparr>currentPoint = 1, periodic = 0, escaped = 1, not_escaped = 0, skipped = 0, run = 2,
        max_n = 1, max_period = 0, max_period_n = 0,
        image = [(0, 0) \<mapsto> \<lparr>red = 0, green = 0, blue = 0\<rparr>],
        pCheck = [Kompleks (Fin 3) (Fin 0)], cur_c = Kompleks (Fin 3) (Fin 0),
        previous_time = 0, clock_reads = 3, cancel_reads = 3, progress = []\<rparr>
       False False"
  by (simp add: main_def configure_def default_arguments_def bind_result_def cast_uint32_def
      cast_to_def trunc_to_zero_def round_half_away_def string_to_fractal_type_def
      FractalType_strings_def render_defs colorize_two_logs)

end
